theory Spec2Isabelle
  imports Complex_Main "HOL-Library.Word"
begin

section \<open>Values of the host platform\<close>

text \<open>
  The library runs in a browser. A byte of a \<^verbatim>\<open>Uint8Array\<close> is an 8-bit word, an element of a
  \<^verbatim>\<open>Uint32Array\<close> a 32-bit word. Text that the program builds and sends (URLs, request bodies,
  storage keys) is a \<open>string\<close>, read as the UTF-8 bytes of the JavaScript string. The one
  JavaScript string whose code units matter individually, the \<^verbatim>\<open>binary\<close> string handed to
  \<^verbatim>\<open>btoa\<close>, is a list of code units.
\<close>

type_synonym byte = "8 word"
type_synonym u32 = "32 word"
type_synonym code_unit = nat

text \<open>
  Everything the program or the platform throws. \<open>Error m\<close> is \<^verbatim>\<open>new Error(m)\<close>, the only
  exception the library itself constructs; the others are thrown by platform calls.
\<close>

datatype js_error =
    Error string
  | TypeError
  | SyntaxError
  | InvalidCharacterError
  | QuotaExceededError

section \<open>crypto.utils.ts: arrayBufferToBase64\<close>

subsection \<open>The platform's btoa\<close>

definition base64_alphabet :: string where
  "base64_alphabet = ''ABCDEFGHIJKLMNOPQRSTUVWXYZabcdefghijklmnopqrstuvwxyz0123456789+/''"

definition b64_char :: "nat \<Rightarrow> char" where
  "b64_char i = base64_alphabet ! i"

text \<open>
  Base64 of a list of octets (RFC 4648, section 4): three octets give four characters, a
  rest of one or two octets is padded with \<^verbatim>\<open>=\<close>.
\<close>

fun base64_encode :: "nat list \<Rightarrow> string" where
  "base64_encode (a # b # c # rest) =
     [b64_char (a div 4), b64_char ((a mod 4) * 16 + b div 16),
      b64_char ((b mod 16) * 4 + c div 64), b64_char (c mod 64)] @ base64_encode rest"
| "base64_encode [a, b] =
     [b64_char (a div 4), b64_char ((a mod 4) * 16 + b div 16),
      b64_char ((b mod 16) * 4), CHR ''='']"
| "base64_encode [a] =
     [b64_char (a div 4), b64_char ((a mod 4) * 16), CHR ''='', CHR ''='']"
| "base64_encode [] = []"

text \<open>
  \<^verbatim>\<open>window.btoa(s)\<close> throws an \<^verbatim>\<open>InvalidCharacterError\<close> when \<^verbatim>\<open>s\<close> has a code unit above
  \<^verbatim>\<open>0xFF\<close>, and otherwise returns the base64 of the code units read as octets.
\<close>

definition btoa :: "code_unit list \<Rightarrow> js_error + string" where
  "btoa s = (if list_all (\<lambda>c. c \<le> 255) s then Inr (base64_encode s)
             else Inl InvalidCharacterError)"

subsection \<open>The function\<close>

text \<open>\<^verbatim>\<open>String.fromCharCode(bytes[i])\<close> on an element of a \<^verbatim>\<open>Uint8Array\<close>.\<close>

definition fromCharCode :: "byte \<Rightarrow> code_unit" where
  "fromCharCode b = unat b mod 65536"

text \<open>
  The loop \<^verbatim>\<open>for (let i = 0; i < bytes.byteLength; i += 1) binary += String.fromCharCode(bytes[i])\<close>:
  the index runs up to the length, the accumulator grows at its end.
\<close>

function binary_loop :: "byte list \<Rightarrow> nat \<Rightarrow> code_unit list \<Rightarrow> code_unit list" where
  "binary_loop bytes i binary =
     (if i < length bytes then binary_loop bytes (i + 1) (binary @ [fromCharCode (bytes ! i)])
      else binary)"
  by pat_completeness auto
termination
  by (relation "measure (\<lambda>(bytes, i, binary). length bytes - i)") auto

declare binary_loop.simps [simp del]

text \<open>\<^verbatim>\<open>.replace(/\+/g, '-')\<close> and \<^verbatim>\<open>.replace(/\//g, '_')\<close>: every occurrence of one character.\<close>

definition replace_all :: "char \<Rightarrow> char \<Rightarrow> string \<Rightarrow> string" where
  "replace_all c d s = map (\<lambda>x. if x = c then d else x) s"

text \<open>
  \<^verbatim>\<open>.replace(/=+$/, '')\<close>: the leftmost match of \<^verbatim>\<open>=+$\<close> is the maximal run of \<^verbatim>\<open>=\<close> at the
  end of the string; it is removed.
\<close>

definition strip_trailing_equals :: "string \<Rightarrow> string" where
  "strip_trailing_equals s = rev (dropWhile (\<lambda>c. c = CHR ''='') (rev s))"

definition arrayBufferToBase64 :: "byte list \<Rightarrow> js_error + string" where
  "arrayBufferToBase64 buffer =
     (let binary = binary_loop buffer 0 []
      in case btoa binary of
           Inl e \<Rightarrow> Inl e
         | Inr s \<Rightarrow>
             Inr (strip_trailing_equals
                    (replace_all (CHR ''/'') (CHR ''_'') (replace_all (CHR ''+'') (CHR ''-'') s))))"

subsection \<open>A base64url decoder, to state the round trip\<close>

text \<open>
  The decoder is not part of the library. It is the decoder of RFC 4648, section 5, for
  input without padding: the URL-safe alphabet, four characters to three octets, a rest of
  two or three characters to one or two octets, and no other length.
\<close>

definition base64url_alphabet :: string where
  "base64url_alphabet = ''ABCDEFGHIJKLMNOPQRSTUVWXYZabcdefghijklmnopqrstuvwxyz0123456789-_''"

fun index_of :: "'a \<Rightarrow> 'a list \<Rightarrow> nat option" where
  "index_of x [] = None"
| "index_of x (y # ys) = (if x = y then Some 0 else map_option Suc (index_of x ys))"

definition b64url_index :: "char \<Rightarrow> nat option" where
  "b64url_index c = index_of c base64url_alphabet"

fun base64url_indices :: "string \<Rightarrow> nat list option" where
  "base64url_indices [] = Some []"
| "base64url_indices (c # cs) =
     (case b64url_index c of
        None \<Rightarrow> None
      | Some i \<Rightarrow> map_option ((#) i) (base64url_indices cs))"

fun sextets_to_octets :: "nat list \<Rightarrow> byte list option" where
  "sextets_to_octets (i # j # k # l # rest) =
     map_option (\<lambda>bs. [of_nat (i * 4 + j div 16), of_nat ((j mod 16) * 16 + k div 4),
                        of_nat ((k mod 4) * 64 + l)] @ bs)
       (sextets_to_octets rest)"
| "sextets_to_octets [i, j, k] =
     Some [of_nat (i * 4 + j div 16), of_nat ((j mod 16) * 16 + k div 4)]"
| "sextets_to_octets [i, j] = Some [of_nat (i * 4 + j div 16)]"
| "sextets_to_octets [i] = None"
| "sextets_to_octets [] = Some []"

definition base64url_decode :: "string \<Rightarrow> byte list option" where
  "base64url_decode s =
     (case base64url_indices s of None \<Rightarrow> None | Some is \<Rightarrow> sextets_to_octets is)"


section \<open>crypto.utils.ts: sha256 and generateNonce\<close>

text \<open>
  What the program observes and changes outside itself, in the order it happens:
  writes, reads and removals on \<^verbatim>\<open>sessionStorage\<close>, assignments to \<^verbatim>\<open>window.location.href\<close>
  and calls of \<^verbatim>\<open>fetch\<close>.
\<close>

record request =
  req_url :: string
  req_method :: string
  req_headers :: "(string \<times> string) list"
  req_body :: string

datatype event =
    StorageSet string string
  | StorageGet string
  | StorageRemove string
  | Navigate string
  | HttpRequest request

text \<open>
  The browser state the program runs in. \<open>entropy\<close> is the tape of 32-bit words that
  \<^verbatim>\<open>crypto.getRandomValues\<close> will hand out and \<open>drawn\<close> the number of words handed out so
  far; \<open>location_search\<close> is \<^verbatim>\<open>window.location.search\<close>.
\<close>

record world =
  entropy :: "nat \<Rightarrow> u32"
  drawn :: nat
  sessionStorage :: "string \<rightharpoonup> string"
  location_search :: string
  trace :: "event list"

text \<open>JSON values, as \<^verbatim>\<open>res.json()\<close> returns them.\<close>

datatype json =
    JNull
  | JBool bool
  | JNumber real
  | JString string
  | JArray "json list"
  | JObject "(string \<times> json) list"

text \<open>
  A \<^verbatim>\<open>Response\<close>: its status, and what \<^verbatim>\<open>res.json()\<close> gives, which is a \<^verbatim>\<open>SyntaxError\<close> when
  the body is not JSON.
\<close>

record response =
  res_status :: nat
  res_json :: "js_error + json"

definition res_ok :: "response \<Rightarrow> bool" where
  "res_ok res = (200 \<le> res_status res \<and> res_status res \<le> 299)"

text \<open>A parsed URL, as far as the program touches it: everything before the query, the
  query and the fragment.\<close>

record url =
  url_base :: string
  url_special :: bool
  url_query :: "string option"
  url_fragment :: "string option"

text \<open>
  The collaborators the program calls and does not define: the SHA-256 digest of
  \<^verbatim>\<open>crypto.subtle\<close> (applied to the UTF-8 bytes of a string), the \<^verbatim>\<open>URL\<close> constructor with a
  base (a \<^verbatim>\<open>TypeError\<close> when the result is not a URL), \<^verbatim>\<open>fetch\<close> (the promise rejects when
  the request cannot be made), \<^verbatim>\<open>JSON.stringify\<close>, and whether the session store takes a
  write (\<^verbatim>\<open>setItem\<close> throws a \<^verbatim>\<open>QuotaExceededError\<close> otherwise).
\<close>

record platform =
  sha256 :: "string \<Rightarrow> byte list"
  new_URL :: "string \<Rightarrow> string \<Rightarrow> js_error + url"
  fetch :: "request \<Rightarrow> js_error + response"
  JSON_stringify :: "json \<Rightarrow> string"
  storage_accepts :: "string \<Rightarrow> string \<Rightarrow> bool"

definition digit_char :: "nat \<Rightarrow> char" where
  "digit_char d = ''0123456789abcdefghijklmnopqrstuvwxyz'' ! d"

text \<open>\<^verbatim>\<open>Number.prototype.toString(radix)\<close> on a non-negative integer.\<close>

function number_toString :: "nat \<Rightarrow> nat \<Rightarrow> string" where
  "number_toString radix n =
     (if radix < 2 \<or> n < radix then [digit_char n]
      else number_toString radix (n div radix) @ [digit_char (n mod radix)])"
  by pat_completeness auto
termination
  by (relation "measure (\<lambda>(radix, n). n)") auto

declare number_toString.simps [simp del]

text \<open>\<^verbatim>\<open>Array.prototype.join\<close> on strings.\<close>

fun join :: "string \<Rightarrow> string list \<Rightarrow> string" where
  "join sep [] = []"
| "join sep [x] = x"
| "join sep (x # y # ys) = x @ sep @ join sep (y # ys)"

definition padStart :: "nat \<Rightarrow> char \<Rightarrow> string \<Rightarrow> string" where
  "padStart n c s = replicate (n - length s) c @ s"

text \<open>\<^verbatim>\<open>Uint32Array.prototype.toString\<close>: the elements in decimal, joined by commas.\<close>

definition Uint32Array_toString :: "u32 list \<Rightarrow> string" where
  "Uint32Array_toString values = join '','' (map (\<lambda>x. number_toString 10 (unat x)) values)"

text \<open>\<^verbatim>\<open>crypto.getRandomValues(new Uint32Array(n))\<close>: the next \<open>n\<close> words of the tape.\<close>

definition getRandomValues :: "nat \<Rightarrow> world \<Rightarrow> u32 list \<times> world" where
  "getRandomValues n w =
     (map (\<lambda>i. entropy w (drawn w + i)) [0..<n], w\<lparr>drawn := drawn w + n\<rparr>)"

definition generateNonce :: "platform \<Rightarrow> world \<Rightarrow> string \<times> world" where
  "generateNonce P w =
     (let (values, w') = getRandomValues 4 w;
          hash = sha256 P (Uint32Array_toString values);
          hashArray = hash
      in (concat (map (\<lambda>b. padStart 2 (CHR ''0'') (number_toString 16 (unat b))) hashArray), w'))"

section \<open>index.ts: getChallenge\<close>

record Challenge =
  state :: string
  codeVerifier :: string
  codeChallenge :: string

text \<open>
  \<^verbatim>\<open>Promise.all([generateNonce(), generateNonce()])\<close>: both calls are made in order, each
  draws its random words before its first \<^verbatim>\<open>await\<close>, and the results are bound by position.
\<close>

definition getChallenge :: "platform \<Rightarrow> world \<Rightarrow> (js_error + Challenge) \<times> world" where
  "getChallenge P w =
     (let (state', w1) = generateNonce P w;
          (codeVerifier', w2) = generateNonce P w1;
          codeChallenge' = sha256 P codeVerifier'
      in case arrayBufferToBase64 codeChallenge' of
           Inl e \<Rightarrow> (Inl e, w2)
         | Inr encoded \<Rightarrow>
             (Inr \<lparr>state = state', codeVerifier = codeVerifier', codeChallenge = encoded\<rparr>, w2))"

section \<open>The session store and navigation\<close>

definition setItem :: "platform \<Rightarrow> string \<Rightarrow> string \<Rightarrow> world \<Rightarrow> js_error + world" where
  "setItem P k v w =
     (if storage_accepts P k v
      then Inr (w\<lparr>sessionStorage := (sessionStorage w)(k \<mapsto> v),
                  trace := trace w @ [StorageSet k v]\<rparr>)
      else Inl QuotaExceededError)"

definition getItem :: "string \<Rightarrow> world \<Rightarrow> string option \<times> world" where
  "getItem k w = (sessionStorage w k, w\<lparr>trace := trace w @ [StorageGet k]\<rparr>)"

definition removeItem :: "string \<Rightarrow> world \<Rightarrow> world" where
  "removeItem k w =
     w\<lparr>sessionStorage := (sessionStorage w)(k := None), trace := trace w @ [StorageRemove k]\<rparr>"

text \<open>\<^verbatim>\<open>window.location.href = s\<close>.\<close>

definition navigate :: "string \<Rightarrow> world \<Rightarrow> world" where
  "navigate s w = w\<lparr>trace := trace w @ [Navigate s]\<rparr>"

section \<open>URLSearchParams and the URL object\<close>

text \<open>
  The \<^verbatim>\<open>application/x-www-form-urlencoded\<close> serializer of the URL standard: a space becomes
  \<^verbatim>\<open>+\<close>; ASCII letters, digits and \<^verbatim>\<open>*-._\<close> stay; every other byte becomes \<^verbatim>\<open>%\<close> and two
  upper-case hexadecimal digits.
\<close>

definition is_form_safe :: "char \<Rightarrow> bool" where
  "is_form_safe c =
     (c \<in> set ''ABCDEFGHIJKLMNOPQRSTUVWXYZabcdefghijklmnopqrstuvwxyz0123456789*-._'')"

definition hex_upper :: "nat \<Rightarrow> char" where
  "hex_upper d = ''0123456789ABCDEF'' ! d"

definition percent_encode_byte :: "char \<Rightarrow> string" where
  "percent_encode_byte c =
     [CHR ''%'', hex_upper ((of_char c :: nat) div 16), hex_upper ((of_char c :: nat) mod 16)]"

definition form_encode_char :: "char \<Rightarrow> string" where
  "form_encode_char c =
     (if c = CHR '' '' then ''+'' else if is_form_safe c then [c] else percent_encode_byte c)"

definition form_encode :: "string \<Rightarrow> string" where
  "form_encode s = concat (map form_encode_char s)"

text \<open>\<^verbatim>\<open>new URLSearchParams(record).toString()\<close>, the record given as its entries in order.\<close>

definition URLSearchParams_toString :: "(string \<times> string) list \<Rightarrow> string" where
  "URLSearchParams_toString ps =
     join ''&'' (map (\<lambda>(name, val). form_encode name @ ''='' @ form_encode val) ps)"

text \<open>The parser of the same format, which \<^verbatim>\<open>new URLSearchParams(string)\<close> runs.\<close>

fun split_on :: "char \<Rightarrow> string \<Rightarrow> string list" where
  "split_on d [] = [[]]"
| "split_on d (c # cs) =
     (if c = d then [] # split_on d cs
      else case split_on d cs of [] \<Rightarrow> [[c]] | x # xs \<Rightarrow> (c # x) # xs)"

definition hex_value :: "char \<Rightarrow> nat option" where
  "hex_value c =
     (case index_of c ''0123456789ABCDEF'' of
        Some d \<Rightarrow> Some d
      | None \<Rightarrow> map_option (\<lambda>d. d + 10) (index_of c ''abcdef''))"

fun percent_decode :: "string \<Rightarrow> string" where
  "percent_decode [] = []"
| "percent_decode [c] = [c]"
| "percent_decode [c, h] = [c, h]"
| "percent_decode (c # h # l # rest) =
     (if c = CHR ''%'' then
        (case (hex_value h, hex_value l) of
           (Some x, Some y) \<Rightarrow> char_of (x * 16 + y) # percent_decode rest
         | _ \<Rightarrow> c # percent_decode (h # l # rest))
      else c # percent_decode (h # l # rest))"

definition form_decode :: "string \<Rightarrow> string" where
  "form_decode s = percent_decode (replace_all (CHR ''+'') (CHR '' '') s)"

definition parse_pair :: "string \<Rightarrow> string \<times> string" where
  "parse_pair s =
     (if CHR ''='' \<in> set s
      then (form_decode (takeWhile (\<lambda>c. c \<noteq> CHR ''='') s),
            form_decode (tl (dropWhile (\<lambda>c. c \<noteq> CHR ''='') s)))
      else (form_decode s, []))"

definition form_parse :: "string \<Rightarrow> (string \<times> string) list" where
  "form_parse s = map parse_pair (filter (\<lambda>x. x \<noteq> []) (split_on (CHR ''&'') s))"

text \<open>\<^verbatim>\<open>new URLSearchParams(init)\<close> on a string: one leading \<^verbatim>\<open>?\<close> is dropped.\<close>

definition URLSearchParams_parse :: "string \<Rightarrow> (string \<times> string) list" where
  "URLSearchParams_parse init =
     form_parse (case init of [] \<Rightarrow> [] | c # cs \<Rightarrow> if c = CHR ''?'' then cs else init)"

text \<open>\<^verbatim>\<open>get(name)\<close>: the value of the first pair with that name, \<^verbatim>\<open>null\<close> when there is none.\<close>

fun URLSearchParams_get :: "(string \<times> string) list \<Rightarrow> string \<Rightarrow> string option" where
  "URLSearchParams_get [] name = None"
| "URLSearchParams_get ((n, v) # ps) name =
     (if n = name then Some v else URLSearchParams_get ps name)"

text \<open>
  The \<^verbatim>\<open>search\<close> setter of a URL: the empty string clears the query; otherwise one leading
  \<^verbatim>\<open>?\<close> is dropped, tabs and newlines are removed, and the bytes of the query percent-encode
  set (controls, space, \<^verbatim>\<open>"\<close>, \<^verbatim>\<open>#\<close>, \<^verbatim>\<open><\<close>, \<^verbatim>\<open>>\<close>, everything above \<^verbatim>\<open>~\<close>, and \<^verbatim>\<open>'\<close> for a special
  scheme) are percent-encoded.
\<close>

definition in_query_set :: "bool \<Rightarrow> char \<Rightarrow> bool" where
  "in_query_set special c =
     ((of_char c :: nat) \<le> 32 \<or> (of_char c :: nat) > 126 \<or> c \<in> set [CHR 0x22, CHR ''#'', CHR ''<'', CHR ''>'']
      \<or> (special \<and> c = CHR 0x27))"

definition query_encode :: "bool \<Rightarrow> string \<Rightarrow> string" where
  "query_encode special s =
     concat (map (\<lambda>c. if in_query_set special c then percent_encode_byte c else [c])
                 (filter (\<lambda>c. c \<notin> set [CHR 0x09, CHR 0x0A, CHR 0x0D]) s))"

definition set_search :: "string \<Rightarrow> url \<Rightarrow> url" where
  "set_search v u =
     (case v of
        [] \<Rightarrow> u\<lparr>url_query := None\<rparr>
      | c # cs \<Rightarrow>
          u\<lparr>url_query := Some (query_encode (url_special u) (if c = CHR ''?'' then cs else v))\<rparr>)"

text \<open>\<^verbatim>\<open>url.toString()\<close>, the serialization of the URL.\<close>

definition href :: "url \<Rightarrow> string" where
  "href u =
     url_base u @ (case url_query u of None \<Rightarrow> [] | Some q \<Rightarrow> ''?'' @ q)
                @ (case url_fragment u of None \<Rightarrow> [] | Some f \<Rightarrow> ''#'' @ f)"

section \<open>index.ts: redirectToLogin and redirectToLogout\<close>

text \<open>
  The parameters are destructured from one object; \<open>path\<close> and \<open>scope\<close> may be missing
  (\<open>None\<close>) and then take their defaults.
\<close>

definition login_params :: "string \<Rightarrow> Challenge \<Rightarrow> string \<Rightarrow> string \<Rightarrow> (string \<times> string) list" where
  "login_params scope' c clientId redirectUri =
     [(''response_type'', ''code''),
      (''scope'', scope'),
      (''state'', state c),
      (''client_id'', clientId),
      (''code_challenge'', codeChallenge c),
      (''code_challenge_method'', ''S256''),
      (''redirect_uri'', redirectUri)]"

definition redirectToLogin ::
  "platform \<Rightarrow> string \<Rightarrow> string \<Rightarrow> string \<Rightarrow> string option \<Rightarrow> string option \<Rightarrow> world
     \<Rightarrow> (js_error + unit) \<times> world" where
  "redirectToLogin P idpUrl clientId redirectUri path scope w =
     (let path' = (case path of None \<Rightarrow> ''/login'' | Some p \<Rightarrow> p);
          scope' = (case scope of None \<Rightarrow> ''openid'' | Some s \<Rightarrow> s)
      in case getChallenge P w of
           (Inl e, w1) \<Rightarrow> (Inl e, w1)
         | (Inr c, w1) \<Rightarrow>
             (case setItem P (state c) (codeVerifier c) w1 of
                Inl e \<Rightarrow> (Inl e, w1)
              | Inr w2 \<Rightarrow>
                  (case new_URL P path' idpUrl of
                     Inl e \<Rightarrow> (Inl e, w2)
                   | Inr u \<Rightarrow>
                       (let u' = set_search
                                   (URLSearchParams_toString
                                      (login_params scope' c clientId redirectUri)) u
                        in (Inr (), navigate (href u') w2)))))"

definition redirectToLogout ::
  "string \<Rightarrow> string option \<Rightarrow> string \<Rightarrow> string \<Rightarrow> world \<Rightarrow> world" where
  "redirectToLogout idpUrl path clientId logoutUri w =
     (let path' = (case path of None \<Rightarrow> ''/logout'' | Some p \<Rightarrow> p);
          logoutUrl = idpUrl @ path' @ ''?client_id='' @ clientId @ ''&logout_uri='' @ logoutUri
      in navigate logoutUrl w)"

section \<open>validation.ts: validateAuth\<close>

datatype js_type = T_undefined | T_object | T_boolean | T_number | T_string

text \<open>\<^verbatim>\<open>typeof\<close>, with \<open>None\<close> for \<^verbatim>\<open>undefined\<close>.\<close>

fun typeof :: "json option \<Rightarrow> js_type" where
  "typeof None = T_undefined"
| "typeof (Some JNull) = T_object"
| "typeof (Some (JBool b)) = T_boolean"
| "typeof (Some (JNumber n)) = T_number"
| "typeof (Some (JString s)) = T_string"
| "typeof (Some (JArray xs)) = T_object"
| "typeof (Some (JObject kvs)) = T_object"

text \<open>
  Reading a named property. None of the names this program reads is an index or a
  built-in property of arrays or of \<^verbatim>\<open>Object.prototype\<close>, so only the members of an object
  are found.
\<close>

fun property :: "json \<Rightarrow> string \<Rightarrow> json option" where
  "property (JObject kvs) k = map_of kvs k"
| "property _ k = None"

definition validateAuth :: "json \<Rightarrow> js_error + json" where
  "validateAuth input =
     (if typeof (Some input) \<noteq> T_object \<or> input = JNull then
        Inl (Error ''Input must be a non-null object'')
      else if typeof (property input ''access_token'') \<noteq> T_string then
        Inl (Error ''access_token must be a string'')
      else if typeof (property input ''expires_in'') \<noteq> T_number then
        Inl (Error ''expires_in must be a number'')
      else if typeof (property input ''id_token'') \<noteq> T_string then
        Inl (Error ''id_token must be a string'')
      else if typeof (property input ''refresh_token'') \<noteq> T_string then
        Inl (Error ''refresh_token must be a string'')
      else if property input ''token_type'' \<noteq> Some (JString ''Bearer'') then
        Inl (Error (''token_type must be '' @ [CHR 0x27] @ ''Bearer'' @ [CHR 0x27]))
      else Inr input)"

section \<open>index.ts: exchangeCode and handleCallback\<close>

definition token_request :: "string \<Rightarrow> string \<Rightarrow> string \<Rightarrow> string \<Rightarrow> string \<Rightarrow> request" where
  "token_request code codeVerifier' idpUrl clientId redirectUri =
     \<lparr>req_url = idpUrl @ ''/oauth2/token'',
      req_method = ''POST'',
      req_headers = [(''content-type'', ''application/x-www-form-urlencoded'')],
      req_body = join ''&'' (map (\<lambda>(k, v). k @ ''='' @ v)
                   [(''grant_type'', ''authorization_code''),
                    (''client_id'', clientId),
                    (''code'', code),
                    (''code_verifier'', codeVerifier'),
                    (''redirect_uri'', redirectUri)])\<rparr>"

definition exchangeCode ::
  "platform \<Rightarrow> string \<Rightarrow> string \<Rightarrow> string \<Rightarrow> string \<Rightarrow> string \<Rightarrow> world
     \<Rightarrow> (js_error + json) \<times> world" where
  "exchangeCode P code codeVerifier' idpUrl clientId redirectUri w =
     (let rq = token_request code codeVerifier' idpUrl clientId redirectUri;
          w1 = w\<lparr>trace := trace w @ [HttpRequest rq]\<rparr>
      in case fetch P rq of
           Inl e \<Rightarrow> (Inl e, w1)
         | Inr res \<Rightarrow>
             (case res_json res of
                Inl e \<Rightarrow> (Inl e, w1)
              | Inr rawData \<Rightarrow>
                  if \<not> res_ok res then
                    (Inl (Error (''Error exchanging code: '' @ JSON_stringify P rawData)), w1)
                  else (validateAuth rawData, w1)))"

text \<open>\<^verbatim>\<open>!x\<close> on a value that is a string or \<^verbatim>\<open>null\<close>: true for \<^verbatim>\<open>null\<close> and for the empty string.\<close>

fun falsy :: "string option \<Rightarrow> bool" where
  "falsy None = True"
| "falsy (Some s) = (s = [])"

definition handleCallback ::
  "platform \<Rightarrow> string \<Rightarrow> string \<Rightarrow> string \<Rightarrow> world \<Rightarrow> (js_error + json) \<times> world" where
  "handleCallback P idpUrl clientId redirectUri w =
     (let queryString = URLSearchParams_parse (location_search w);
          code = URLSearchParams_get queryString ''code'';
          state' = URLSearchParams_get queryString ''state''
      in if falsy state' \<or> falsy code then (Inl (Error ''Missing state or code''), w)
         else case (state', code) of
           (Some st, Some cd) \<Rightarrow>
             (let (codeVerifier', w1) = getItem st w;
                  w2 = removeItem st w1
              in if falsy codeVerifier' then (Inl (Error ''Missing state''), w2)
                 else case codeVerifier' of
                   Some cv \<Rightarrow> exchangeCode P cd cv idpUrl clientId redirectUri w2
                 | None \<Rightarrow> (Inl (Error ''Missing state''), w2))
         | _ \<Rightarrow> (Inl (Error ''Missing state or code''), w))"

section \<open>Definitions used in the statements and proofs\<close>

text \<open>The sextets of the base64 of a list of octets, and the number of padding characters.\<close>

fun b64_body :: "nat list \<Rightarrow> nat list" where
  "b64_body (a # b # c # rest) =
     [a div 4, (a mod 4) * 16 + b div 16, (b mod 16) * 4 + c div 64, c mod 64] @ b64_body rest"
| "b64_body [a, b] = [a div 4, (a mod 4) * 16 + b div 16, (b mod 16) * 4]"
| "b64_body [a] = [a div 4, (a mod 4) * 16]"
| "b64_body [] = []"

fun b64_pad :: "nat list \<Rightarrow> nat" where
  "b64_pad (a # b # c # rest) = b64_pad rest"
| "b64_pad [a, b] = 1"
| "b64_pad [a] = 2"
| "b64_pad [] = 0"

text \<open>What the two replacements of \<open>arrayBufferToBase64\<close> do to one character.\<close>

definition to_url :: "char \<Rightarrow> char" where
  "to_url x =
     (let y = (if x = CHR ''+'' then CHR ''-'' else x) in if y = CHR ''/'' then CHR ''_'' else y)"

text \<open>
  The characters the serializer of URLSearchParams can produce inside a name or a value,
  and the serialization of one pair.
\<close>

definition form_alphabet :: string where
  "form_alphabet = ''ABCDEFGHIJKLMNOPQRSTUVWXYZabcdefghijklmnopqrstuvwxyz0123456789*-._+%''"

definition pair_string :: "string \<times> string \<Rightarrow> string" where
  "pair_string p = form_encode (fst p) @ ''='' @ form_encode (snd p)"

section \<open>The validation rule as the specification words it\<close>

text \<open>
  The specification lets validation fail when the input is not an object, when
  \<^verbatim>\<open>access_token\<close>, \<^verbatim>\<open>id_token\<close> or \<^verbatim>\<open>refresh_token\<close> is not a string, when \<^verbatim>\<open>expires_in\<close> is not a
  number, or when \<^verbatim>\<open>token_type\<close> is present and not exactly \<^verbatim>\<open>Bearer\<close>. This is that rule, to be
  compared with \<open>validateAuth\<close>.
\<close>

fun is_object :: "json \<Rightarrow> bool" where
  "is_object (JObject kvs) = True"
| "is_object _ = False"

definition spec_schema_error :: "json \<Rightarrow> bool" where
  "spec_schema_error raw =
     (\<not> is_object raw
      \<or> typeof (property raw ''access_token'') \<noteq> T_string
      \<or> typeof (property raw ''id_token'') \<noteq> T_string
      \<or> typeof (property raw ''refresh_token'') \<noteq> T_string
      \<or> typeof (property raw ''expires_in'') \<noteq> T_number
      \<or> (property raw ''token_type'' \<noteq> None \<and> property raw ''token_type'' \<noteq> Some (JString ''Bearer'')))"

section \<open>Concrete inputs\<close>

text \<open>
  Stand-ins for the collaborators, for running the program on concrete inputs: a digest
  that keeps the first two bytes of its input, a resolver that appends the path to the
  base, a serializer for objects with one string member, a store that takes every write,
  and a token endpoint that gives the same answer to every request.
\<close>

definition toy_digest :: "string \<Rightarrow> byte list" where
  "toy_digest s = map (\<lambda>c. of_nat (of_char c)) (take 2 s)"

definition toy_URL :: "string \<Rightarrow> string \<Rightarrow> js_error + url" where
  "toy_URL p base = Inr \<lparr>url_base = base @ p, url_special = True, url_query = None, url_fragment = None\<rparr>"

definition toy_stringify :: "json \<Rightarrow> string" where
  "toy_stringify j =
     (case j of
        JObject [(k, JString v)] \<Rightarrow>
          ''{'' @ [CHR 0x22] @ k @ [CHR 0x22] @ '':'' @ [CHR 0x22] @ v @ [CHR 0x22] @ ''}''
      | _ \<Rightarrow> ''null'')"

definition bad_request :: response where
  "bad_request = \<lparr>res_status = 400, res_json = Inr (JObject [(''error'', JString ''invalid_grant'')])\<rparr>"

definition bad_gateway :: response where
  "bad_gateway = \<lparr>res_status = 502, res_json = Inl SyntaxError\<rparr>"

definition toy_platform :: "response \<Rightarrow> platform" where
  "toy_platform res = \<lparr>sha256 = toy_digest, new_URL = toy_URL, fetch = (\<lambda>rq. Inr res),
      JSON_stringify = toy_stringify, storage_accepts = (\<lambda>k v. True)\<rparr>"

text \<open>
  Browser states: a store holding one verifier under the state \<^verbatim>\<open>abc\<close>, an empty store,
  and a state whose random tape differs from the first from the fifth word on.
\<close>

definition callback_world :: "string \<Rightarrow> world" where
  "callback_world search = \<lparr>entropy = (\<lambda>i. of_nat i), drawn = 0, sessionStorage = [''abc'' \<mapsto> ''v3r1f13r''],
      location_search = search, trace = []\<rparr>"

definition empty_store_world :: "string \<Rightarrow> world" where
  "empty_store_world search = \<lparr>entropy = (\<lambda>i. of_nat i), drawn = 0, sessionStorage = Map.empty,
      location_search = search, trace = []\<rparr>"

definition other_world :: world where
  "other_world = \<lparr>entropy = (\<lambda>i. if i < 4 then of_nat i else of_nat (i + 7)), drawn = 0,
      sessionStorage = Map.empty, location_search = [], trace = []\<rparr>"

definition toy_challenge :: Challenge where
  "toy_challenge = \<lparr>state = ''302c'', codeVerifier = ''342c'', codeChallenge = ''MzQ''\<rparr>"

text \<open>
  Token responses: the documented shape with a given \<^verbatim>\<open>expires_in\<close>, and the same without
  \<^verbatim>\<open>token_type\<close>.
\<close>

definition tokens :: "json \<Rightarrow> json" where
  "tokens expires =
     JObject [(''access_token'', JString ''a''), (''expires_in'', expires),
              (''id_token'', JString ''b''), (''refresh_token'', JString ''c''),
              (''token_type'', JString ''Bearer'')]"

definition tokens_without_type :: json where
  "tokens_without_type =
     JObject [(''access_token'', JString ''a''), (''expires_in'', JNumber 60),
              (''id_token'', JString ''b''), (''refresh_token'', JString ''c'')]"

section \<open>The encoder: round trip and alphabet\<close>

lemma binary_loop_from:
  "i \<le> length bytes \<Longrightarrow> binary_loop bytes i acc = acc @ map fromCharCode (drop i bytes)"
proof (induction bytes i acc rule: binary_loop.induct)
  case (1 bytes i binary)
  show ?case
  proof (cases "i < length bytes")
    case True
    then have "drop i bytes = bytes ! i # drop (Suc i) bytes"
      by (simp add: Cons_nth_drop_Suc)
    with True 1 show ?thesis
      by (subst binary_loop.simps) simp
  next
    case False
    with 1 show ?thesis by (subst binary_loop.simps) simp
  qed
qed

lemma binary_loop_map: "binary_loop bytes 0 [] = map fromCharCode bytes"
  by (simp add: binary_loop_from)

lemma fromCharCode_unat: "fromCharCode b = unat b"
proof -
  have "unat b < 2 ^ 8" using unsigned_less [of b] by simp
  then show ?thesis by (simp add: fromCharCode_def)
qed

lemma fromCharCode_le: "fromCharCode b \<le> 255"
proof -
  have "unat b < 2 ^ 8" using unsigned_less [of b] by simp
  then show ?thesis by (simp add: fromCharCode_unat)
qed

lemma btoa_binary: "btoa (map fromCharCode bytes) = Inr (base64_encode (map fromCharCode bytes))"
  by (simp add: btoa_def list_all_iff fromCharCode_le)

lemma base64_encode_split:
  "base64_encode ns = map b64_char (b64_body ns) @ replicate (b64_pad ns) (CHR ''='')"
  by (induction ns rule: base64_encode.induct) (simp_all add: numeral_2_eq_2)

lemma b64_body_bound: "\<forall>n \<in> set ns. n < 256 \<Longrightarrow> \<forall>i \<in> set (b64_body ns). i < 64"
  by (induction ns rule: b64_body.induct) auto

lemma sextet_arith:
  fixes a b c :: nat
  assumes "b < 256" "c < 256"
  shows "a div 4 * 4 + (a mod 4 * 16 + b div 16) div 16 = a"
    and "(a mod 4 * 16 + b div 16) mod 16 * 16 + (b mod 16 * 4 + c div 64) div 4 = b"
    and "(b mod 16 * 4 + c div 64) mod 4 * 64 + c mod 64 = c"
    and "(a mod 4 * 16 + b div 16) mod 16 * 16 + (b mod 16 * 4) div 4 = b"
    and "a div 4 * 4 + (a mod 4 * 16) div 16 = a"
  using assms by auto

lemma sextets_quad:
  assumes "b < 256" "c < 256"
  shows "sextets_to_octets
           (a div 4 # (a mod 4 * 16 + b div 16) # (b mod 16 * 4 + c div 64) # c mod 64 # rest) =
         map_option (\<lambda>bs. [of_nat a, of_nat b, of_nat c] @ bs) (sextets_to_octets rest)"
  by (simp only: sextets_to_octets.simps sextet_arith [OF assms])

lemma sextets_triple:
  assumes "b < 256"
  shows "sextets_to_octets [a div 4, a mod 4 * 16 + b div 16, b mod 16 * 4] =
         Some [of_nat a, of_nat b]"
  by (simp only: sextets_to_octets.simps sextet_arith [OF assms assms])

lemma sextets_pair: "sextets_to_octets [a div 4, a mod 4 * 16] = Some [of_nat a]"
proof -
  have "a div 4 * 4 + (a mod 4 * 16) div 16 = a" by auto
  then show ?thesis by (simp only: sextets_to_octets.simps)
qed

lemma sextets_roundtrip:
  "\<forall>n \<in> set ns. n < 256 \<Longrightarrow> sextets_to_octets (b64_body ns) = Some (map of_nat ns)"
proof (induction ns rule: b64_body.induct)
  case (1 a b c rest)
  then have ih: "sextets_to_octets (b64_body rest) = Some (map of_nat rest)"
    and bd: "b < 256" "c < 256" by simp_all
  show ?case by (simp add: sextets_quad [OF bd] ih del: sextets_to_octets.simps)
next
  case (2 a b)
  then have bd: "b < 256" by simp
  show ?case by (simp add: sextets_triple [OF bd] del: sextets_to_octets.simps)
next
  case (3 a)
  show ?case by (simp add: sextets_pair del: sextets_to_octets.simps)
next
  case 4
  show ?case by simp
qed

lemma b64url_index_all: "list_all (\<lambda>i. b64url_index (to_url (b64_char i)) = Some i) [0..<64]"
  by code_simp

lemma b64url_index_table: "i < 64 \<Longrightarrow> b64url_index (to_url (b64_char i)) = Some i"
  using b64url_index_all by (simp add: list_all_iff)

lemma replace_to_url:
  "replace_all (CHR ''/'') (CHR ''_'') (replace_all (CHR ''+'') (CHR ''-'') s) = map to_url s"
  by (simp add: replace_all_def to_url_def Let_def)

lemma b64url_index_equals: "b64url_index (CHR ''='') = None"
  by code_simp

lemma b64url_index_plus: "b64url_index (CHR ''+'') = None"
  by code_simp

lemma b64url_index_slash: "b64url_index (CHR ''/'') = None"
  by code_simp

lemma to_url_equals: "to_url (CHR ''='') = CHR ''=''"
  by (simp add: to_url_def)

lemma indices_roundtrip:
  "\<forall>i \<in> set js. i < 64 \<Longrightarrow> base64url_indices (map (to_url \<circ> b64_char) js) = Some js"
  by (induction js) (simp_all add: b64url_index_table)

lemma indices_Some_set:
  "base64url_indices s = Some js \<Longrightarrow> \<forall>c \<in> set s. b64url_index c \<noteq> None"
  by (induction s arbitrary: js) (auto split: option.splits)

lemma strip_trailing_equals_append:
  assumes "CHR ''='' \<notin> set xs"
  shows "strip_trailing_equals (xs @ replicate k (CHR ''='')) = xs"
proof -
  from assms have "CHR ''='' \<notin> set (rev xs)" by simp
  then have "dropWhile (\<lambda>c. c = CHR ''='') (rev xs) = rev xs"
    by (cases "rev xs") auto
  moreover have "dropWhile (\<lambda>c. c = CHR ''='') (replicate k (CHR ''='') @ rev xs) =
      dropWhile (\<lambda>c. c = CHR ''='') (rev xs)"
    by (rule dropWhile_append2) simp
  ultimately show ?thesis
    by (simp add: strip_trailing_equals_def)
qed

lemma unat_bytes_small: "\<forall>n \<in> set (map unat (bytes :: byte list)). n < 256"
proof
  fix n assume "n \<in> set (map unat bytes)"
  then obtain b :: byte where "n = unat b" by auto
  moreover have "unat b < 2 ^ 8" using unsigned_less [of b] by simp
  ultimately show "n < 256" by simp
qed
lemma arrayBufferToBase64_eq:
  "arrayBufferToBase64 bytes = Inr (map (to_url \<circ> b64_char) (b64_body (map unat bytes)))"
proof -
  let ?ns = "map unat bytes"
  let ?body = "map (to_url \<circ> b64_char) (b64_body ?ns)"
  have bound: "\<forall>i \<in> set (b64_body ?ns). i < 64"
    using unat_bytes_small by (rule b64_body_bound)
  have "base64url_indices ?body = Some (b64_body ?ns)"
    using bound by (rule indices_roundtrip)
  then have "CHR ''='' \<notin> set ?body"
    using indices_Some_set b64url_index_equals by blast
  then have strip: "strip_trailing_equals (?body @ replicate (b64_pad ?ns) (CHR ''='')) = ?body"
    by (rule strip_trailing_equals_append)
  have enc: "map to_url (base64_encode ?ns) = ?body @ replicate (b64_pad ?ns) (CHR ''='')"
    by (simp add: base64_encode_split to_url_equals)
  have fromCharCode_fun: "fromCharCode = unat"
    by (rule ext) (rule fromCharCode_unat)
  have binary: "binary_loop bytes 0 [] = ?ns"
    by (simp only: binary_loop_map fromCharCode_fun)
  have "btoa ?ns = Inr (base64_encode ?ns)"
    using btoa_binary [of bytes] by (simp only: fromCharCode_fun)
  then show ?thesis
    by (simp add: arrayBufferToBase64_def binary replace_to_url enc strip)
qed

lemma base64url_decode_encoded:
  "base64url_decode (map (to_url \<circ> b64_char) (b64_body (map unat bytes))) = Some bytes"
proof -
  let ?ns = "map unat bytes"
  have small: "\<forall>n \<in> set ?ns. n < 256"
    by (rule unat_bytes_small)
  then have "\<forall>i \<in> set (b64_body ?ns). i < 64" by (rule b64_body_bound)
  then have "base64url_indices (map (to_url \<circ> b64_char) (b64_body ?ns)) = Some (b64_body ?ns)"
    by (rule indices_roundtrip)
  moreover have "sextets_to_octets (b64_body ?ns) = Some (map of_nat ?ns)"
    using small by (rule sextets_roundtrip)
  moreover have "map of_nat ?ns = bytes" by (simp add: map_idI)
  ultimately show ?thesis by (simp add: base64url_decode_def)
qed

lemma url_chars_safe:
  assumes "base64url_indices s = Some js"
  shows "CHR ''+'' \<notin> set s \<and> CHR ''/'' \<notin> set s \<and> CHR ''='' \<notin> set s"
  using indices_Some_set [OF assms] b64url_index_equals b64url_index_plus b64url_index_slash
  by blast

text \<open>
  C8. For every byte sequence, \<open>arrayBufferToBase64\<close> returns a string (it never throws);
  decoding that string as base64url without padding gives the bytes back; and the string
  has no \<^verbatim>\<open>+\<close>, \<^verbatim>\<open>/\<close> or \<^verbatim>\<open>=\<close>.
\<close>

theorem encode_roundtrip:
  "\<exists>s. arrayBufferToBase64 bytes = Inr s \<and> base64url_decode s = Some bytes \<and>
       CHR ''+'' \<notin> set s \<and> CHR ''/'' \<notin> set s \<and> CHR ''='' \<notin> set s"
proof -
  let ?s = "map (to_url \<circ> b64_char) (b64_body (map unat bytes))"
  have dec: "base64url_decode ?s = Some bytes" by (rule base64url_decode_encoded)
  then obtain js where "base64url_indices ?s = Some js"
    by (auto simp: base64url_decode_def split: option.splits)
  then have "CHR ''+'' \<notin> set ?s \<and> CHR ''/'' \<notin> set ?s \<and> CHR ''='' \<notin> set ?s"
    by (rule url_chars_safe)
  with dec arrayBufferToBase64_eq [of bytes] show ?thesis by blast
qed

section \<open>The form encoding: serializer and parser\<close>

lemma hex_upper_all:
  "list_all (\<lambda>d. hex_value (hex_upper d) = Some d \<and> hex_upper d \<in> set form_alphabet
              \<and> hex_upper d \<noteq> CHR ''+'') [0..<16]"
  by code_simp

lemma hex_upper_props:
  assumes "d < 16"
  shows "hex_value (hex_upper d) = Some d" "hex_upper d \<in> set form_alphabet" "hex_upper d \<noteq> CHR ''+''"
  using hex_upper_all assms by (simp_all add: list_all_iff)

lemma form_alphabet_all:
  "list_all (\<lambda>c. c \<noteq> CHR ''&'' \<and> c \<noteq> CHR ''='' \<and> c \<noteq> CHR ''?'' \<and>
                  \<not> in_query_set True c \<and> \<not> in_query_set False c \<and>
                  c \<notin> set [CHR 0x09, CHR 0x0A, CHR 0x0D]) form_alphabet"
  by code_simp

lemma form_alphabet_props:
  assumes "c \<in> set form_alphabet"
  shows "c \<noteq> CHR ''&''" "c \<noteq> CHR ''=''" "c \<noteq> CHR ''?''" "\<not> in_query_set special c"
    "c \<notin> set [CHR 0x09, CHR 0x0A, CHR 0x0D]"
  using form_alphabet_all assms by (cases special; simp add: list_all_iff)+

lemma is_form_safe_alphabet: "is_form_safe c \<Longrightarrow> c \<in> set form_alphabet"
  by (auto simp: is_form_safe_def form_alphabet_def)

lemma is_form_safe_plain: "is_form_safe c \<Longrightarrow> c \<noteq> CHR ''%'' \<and> c \<noteq> CHR ''+''"
  by (auto simp: is_form_safe_def)

lemma of_char_div_16: "(of_char c :: nat) div 16 < 16"
  by (rule less_mult_imp_div_less) simp

lemma form_encode_char_alphabet: "set (form_encode_char c) \<subseteq> set form_alphabet"
proof -
  have "CHR ''+'' \<in> set form_alphabet" "CHR ''%'' \<in> set form_alphabet"
    by (simp_all add: form_alphabet_def)
  then show ?thesis
    using hex_upper_props(2) [OF of_char_div_16 [of c]] hex_upper_props(2) [of "of_char c mod 16"]
    by (auto simp: form_encode_char_def percent_encode_byte_def is_form_safe_alphabet)
qed

lemma form_encode_alphabet: "set (form_encode s) \<subseteq> set form_alphabet"
  using form_encode_char_alphabet by (auto simp: form_encode_def)

lemma percent_decode_plain: "c \<noteq> CHR ''%'' \<Longrightarrow> percent_decode (c # xs) = c # percent_decode xs"
  by (cases xs rule: percent_decode.cases) simp_all

lemma percent_decode_escape:
  assumes "hex_value h = Some x" "hex_value l = Some y"
  shows "percent_decode (CHR ''%'' # h # l # rest) = char_of (x * 16 + y) # percent_decode rest"
  using assms by simp

lemma char_of_nibbles: "char_of ((of_char c :: nat) div 16 * 16 + of_char c mod 16) = c"
  by simp

lemma form_decode_char:
  "percent_decode (replace_all (CHR ''+'') (CHR '' '') (form_encode_char c) @ rest) = c # percent_decode rest"
proof (cases "c = CHR '' ''")
  case True
  then show ?thesis
    by (simp add: form_encode_char_def replace_all_def percent_decode_plain)
next
  case False
  show ?thesis
  proof (cases "is_form_safe c")
    case True
    with False is_form_safe_plain [OF True] show ?thesis
      by (simp add: form_encode_char_def replace_all_def percent_decode_plain)
  next
    case unsafe: False
    let ?h = "hex_upper ((of_char c :: nat) div 16)" and ?l = "hex_upper ((of_char c :: nat) mod 16)"
    have h: "hex_value ?h = Some ((of_char c :: nat) div 16)" "?h \<noteq> CHR ''+''"
      using hex_upper_props [OF of_char_div_16 [of c]] by simp_all
    have l: "hex_value ?l = Some ((of_char c :: nat) mod 16)" "?l \<noteq> CHR ''+''"
      using hex_upper_props [of "of_char c mod 16"] by simp_all
    have "replace_all (CHR ''+'') (CHR '' '') (form_encode_char c) = [CHR ''%'', ?h, ?l]"
      using False unsafe h(2) l(2)
      by (simp add: form_encode_char_def percent_encode_byte_def replace_all_def)
    then show ?thesis
      using percent_decode_escape [OF h(1) l(1), of rest] char_of_nibbles [of c]
      by (simp del: percent_decode.simps)
  qed
qed

lemma form_decode_encode: "form_decode (form_encode s) = s"
proof -
  have "percent_decode (replace_all (CHR ''+'') (CHR '' '') (form_encode s)) = s"
  proof (induction s)
    case Nil
    show ?case by (simp add: form_encode_def replace_all_def)
  next
    case (Cons c s)
    have "replace_all (CHR ''+'') (CHR '' '') (form_encode (c # s)) =
          replace_all (CHR ''+'') (CHR '' '') (form_encode_char c) @
          replace_all (CHR ''+'') (CHR '' '') (form_encode s)"
      by (simp add: form_encode_def replace_all_def)
    then show ?case using form_decode_char [of c] Cons.IH by (simp del: percent_decode.simps)
  qed
  then show ?thesis by (simp add: form_decode_def)
qed

lemma takeWhile_until: "d \<notin> set x \<Longrightarrow> takeWhile (\<lambda>c. c \<noteq> d) (x @ d # r) = x"
  by (induction x) auto

lemma dropWhile_until: "d \<notin> set x \<Longrightarrow> dropWhile (\<lambda>c. c \<noteq> d) (x @ d # r) = d # r"
  by (induction x) auto

lemma split_on_none: "d \<notin> set x \<Longrightarrow> split_on d x = [x]"
  by (induction x) auto

lemma split_on_append: "d \<notin> set x \<Longrightarrow> split_on d (x @ d # rest) = x # split_on d rest"
  by (induction x) auto

lemma pair_string_props: "CHR ''&'' \<notin> set (pair_string p)" "pair_string p \<noteq> []"
  using form_encode_alphabet form_alphabet_props(1) by (auto simp: pair_string_def)

lemma parse_pair_string: "parse_pair (pair_string p) = p"
proof -
  have no_eq: "CHR ''='' \<notin> set (form_encode (fst p))"
    using form_encode_alphabet form_alphabet_props(2) by blast
  then have "takeWhile (\<lambda>c. c \<noteq> CHR ''='') (pair_string p) = form_encode (fst p)"
    by (simp add: pair_string_def takeWhile_until)
  moreover have "dropWhile (\<lambda>c. c \<noteq> CHR ''='') (pair_string p) = ''='' @ form_encode (snd p)"
    using no_eq by (simp add: pair_string_def dropWhile_until)
  moreover have "CHR ''='' \<in> set (pair_string p)" by (simp add: pair_string_def)
  ultimately show ?thesis by (simp add: parse_pair_def form_decode_encode)
qed

lemma toString_pair_string: "URLSearchParams_toString ps = join ''&'' (map pair_string ps)"
proof -
  have "(\<lambda>(name, val). form_encode name @ ''='' @ form_encode val) = pair_string"
    by (auto simp: pair_string_def fun_eq_iff)
  then show ?thesis by (simp add: URLSearchParams_toString_def)
qed

lemma form_parse_join:
  "xs \<noteq> [] \<Longrightarrow> split_on (CHR ''&'') (join ''&'' (map pair_string xs)) = map pair_string xs"
proof (induction xs rule: induct_list012)
  case 1
  then show ?case by simp
next
  case (2 x)
  show ?case by (simp add: split_on_none pair_string_props)
next
  case (3 x y zs)
  have "join ''&'' (map pair_string (x # y # zs)) =
        pair_string x @ CHR ''&'' # join ''&'' (map pair_string (y # zs))" by simp
  then show ?case using 3 by (simp add: split_on_append pair_string_props del: join.simps)
qed

lemma form_parse_toString: "form_parse (URLSearchParams_toString ps) = ps"
proof (cases ps)
  case Nil
  then show ?thesis by (simp add: form_parse_def URLSearchParams_toString_def)
next
  case (Cons p qs)
  then have "ps \<noteq> []" by simp
  then have "split_on (CHR ''&'') (URLSearchParams_toString ps) = map pair_string ps"
    unfolding toString_pair_string by (rule form_parse_join)
  moreover have "filter (\<lambda>x. x \<noteq> []) (map pair_string ps) = map pair_string ps"
    by (simp add: filter_id_conv pair_string_props)
  ultimately show ?thesis
    by (simp add: form_parse_def parse_pair_string o_def map_idI)
qed

lemma toString_alphabet:
  "set (URLSearchParams_toString ps) \<subseteq> set form_alphabet \<union> {CHR ''&'', CHR ''=''}"
proof -
  have ps: "set (pair_string p) \<subseteq> set form_alphabet \<union> {CHR ''&'', CHR ''=''}" for p
    using form_encode_alphabet by (auto simp: pair_string_def)
  have "set (join ''&'' xs) \<subseteq> set form_alphabet \<union> {CHR ''&'', CHR ''=''}"
    if "\<forall>x \<in> set xs. set x \<subseteq> set form_alphabet \<union> {CHR ''&'', CHR ''=''}" for xs
    using that by (induction xs rule: induct_list012) auto
  then show ?thesis using ps by (simp add: toString_pair_string)
qed

lemma query_encode_plain:
  assumes "set q \<subseteq> set form_alphabet \<union> {CHR ''&'', CHR ''=''}"
  shows "query_encode special q = q"
  using assms
proof (induction q)
  case Nil
  show ?case by (simp add: query_encode_def)
next
  case (Cons c q)
  then have "c \<in> set form_alphabet \<or> c = CHR ''&'' \<or> c = CHR ''=''" by auto
  then have "\<not> in_query_set special c \<and> c \<notin> set [CHR 0x09, CHR 0x0A, CHR 0x0D]"
    using form_alphabet_props(4) [of c special] form_alphabet_props(5) [of c]
    by (auto simp: in_query_set_def)
  then show ?case using Cons by (simp add: query_encode_def)
qed

section \<open>Evaluating the concrete inputs\<close>

lemmas query_eval =
  URLSearchParams_parse_def form_parse_def parse_pair_def form_decode_def replace_all_def

lemma upt_4: "[0..<4] = [0, 1, 2, Suc 2]"
  by (simp add: upt_rec)

lemma number_toString_one:
  "2 \<le> r \<Longrightarrow> n < r \<Longrightarrow> number_toString r n = [digit_char n]"
  by (subst number_toString.simps) simp

lemma number_toString_two:
  "2 \<le> r \<Longrightarrow> r \<le> n \<Longrightarrow> n div r < r \<Longrightarrow>
   number_toString r n = [digit_char (n div r), digit_char (n mod r)]"
  by (subst number_toString.simps) (simp add: number_toString_one)

section \<open>getChallenge\<close>

lemma generateNonce_world: "snd (generateNonce P w) = w\<lparr>drawn := drawn w + 4\<rparr>"
  by (simp add: generateNonce_def getRandomValues_def Let_def)

lemma generateNonce_cong:
  assumes "\<forall>i<4. entropy v (drawn v + i) = entropy w (drawn w + i)"
  shows "fst (generateNonce P v) = fst (generateNonce P w)"
proof -
  have eq: "map (\<lambda>i. entropy v (drawn v + i)) [0..<4] = map (\<lambda>i. entropy w (drawn w + i)) [0..<4]"
    using assms by simp
  show ?thesis
    unfolding generateNonce_def getRandomValues_def Let_def eq by simp
qed

lemma getChallenge_eq:
  "getChallenge P w =
     (Inr \<lparr>state = fst (generateNonce P w),
           codeVerifier = fst (generateNonce P (w\<lparr>drawn := drawn w + 4\<rparr>)),
           codeChallenge = map (to_url \<circ> b64_char)
             (b64_body (map unat (sha256 P (fst (generateNonce P (w\<lparr>drawn := drawn w + 4\<rparr>))))))\<rparr>,
      w\<lparr>drawn := drawn w + 8\<rparr>)"
proof -
  obtain s w1 where n1: "generateNonce P w = (s, w1)" by (cases "generateNonce P w")
  obtain cv w2 where n2: "generateNonce P w1 = (cv, w2)" by (cases "generateNonce P w1")
  have w1: "w1 = w\<lparr>drawn := drawn w + 4\<rparr>" using generateNonce_world [of P w] n1 by simp
  have w2: "w2 = w\<lparr>drawn := drawn w + 8\<rparr>" using generateNonce_world [of P w1] n2 w1 by simp
  have s: "s = fst (generateNonce P w)" using n1 by simp
  have cv: "cv = fst (generateNonce P (w\<lparr>drawn := drawn w + 4\<rparr>))" using n2 w1 by simp
  have "getChallenge P w =
      (Inr \<lparr>state = s, codeVerifier = cv,
             codeChallenge = map (to_url \<circ> b64_char) (b64_body (map unat (sha256 P cv)))\<rparr>, w2)"
    by (simp add: getChallenge_def n1 n2 arrayBufferToBase64_eq)
  then show ?thesis by (simp only: s cv w2)
qed

lemmas toy_eval =
  generateNonce_def getRandomValues_def toy_platform_def callback_world_def other_world_def
  Uint32Array_toString_def upt_4 number_toString_one number_toString_two toy_digest_def
  digit_char_def padStart_def to_url_def b64_char_def base64_alphabet_def toy_challenge_def

lemma toy_getChallenge:
  "fst (getChallenge (toy_platform bad_request) (callback_world [])) = Inr toy_challenge"
  by (simp add: getChallenge_eq toy_eval)

lemma other_getChallenge:
  "fst (getChallenge (toy_platform bad_request) other_world) =
     Inr \<lparr>state = ''302c'', codeVerifier = ''3131'', codeChallenge = ''MzE''\<rparr>"
  by (simp add: getChallenge_eq toy_eval)

lemma toy_query:
  "URLSearchParams_toString
     [(''response_type'', ''code''), (''scope'', ''openid''), (''state'', ''302c''),
      (''client_id'', ''c id''), (''code_challenge'', ''MzQ''),
      (''code_challenge_method'', ''S256''), (''redirect_uri'', ''https://app/cb?x=1'')] =
   ''response_type=code&scope=openid&state=302c&client_id=c+id&code_challenge=MzQ&code_challenge_method=S256&redirect_uri=https%3A%2F%2Fapp%2Fcb%3Fx%3D1''"
  by code_simp

text \<open>
  C2. \<open>getChallenge\<close> always returns a challenge. Its \<open>codeChallenge\<close> is what
  \<open>arrayBufferToBase64\<close> makes of the SHA-256 digest of its \<open>codeVerifier\<close>, and decoding it
  as base64url without padding gives that digest back. Two challenges with the same
  \<open>codeVerifier\<close> have the same \<open>codeChallenge\<close>. The \<open>state\<close> is computed from the first four
  random words alone and the \<open>codeVerifier\<close> from the next four alone: neither is computed
  from the other.
\<close>

theorem getChallenge_derivation:
  "\<exists>c. getChallenge P w = (Inr c, w\<lparr>drawn := drawn w + 8\<rparr>)
     \<and> arrayBufferToBase64 (sha256 P (codeVerifier c)) = Inr (codeChallenge c)
     \<and> base64url_decode (codeChallenge c) = Some (sha256 P (codeVerifier c))
     \<and> (\<forall>v d v'. getChallenge P v = (Inr d, v') \<longrightarrow>
           (codeVerifier d = codeVerifier c \<longrightarrow> codeChallenge d = codeChallenge c)
         \<and> ((\<forall>i<4. entropy v (drawn v + i) = entropy w (drawn w + i)) \<longrightarrow> state d = state c)
         \<and> ((\<forall>i<4. entropy v (drawn v + 4 + i) = entropy w (drawn w + 4 + i)) \<longrightarrow>
               codeVerifier d = codeVerifier c))"
proof -
  let ?cv = "\<lambda>w. fst (generateNonce P (w\<lparr>drawn := drawn w + 4\<rparr>))"
  let ?cc = "\<lambda>x. map (to_url \<circ> b64_char) (b64_body (map unat (sha256 P x)))"
  let ?c = "\<lambda>w. \<lparr>state = fst (generateNonce P w), codeVerifier = ?cv w, codeChallenge = ?cc (?cv w)\<rparr>"
  have run: "getChallenge P u = (Inr (?c u), u\<lparr>drawn := drawn u + 8\<rparr>)" for u
    by (rule getChallenge_eq)
  have enc: "arrayBufferToBase64 (sha256 P (codeVerifier (?c w))) = Inr (codeChallenge (?c w))"
    by (simp add: arrayBufferToBase64_eq)
  have dec: "base64url_decode (codeChallenge (?c w)) = Some (sha256 P (codeVerifier (?c w)))"
    by (simp add: base64url_decode_encoded)
  have rel: "(codeVerifier d = codeVerifier (?c w) \<longrightarrow> codeChallenge d = codeChallenge (?c w))
         \<and> ((\<forall>i<4. entropy v (drawn v + i) = entropy w (drawn w + i)) \<longrightarrow> state d = state (?c w))
         \<and> ((\<forall>i<4. entropy v (drawn v + 4 + i) = entropy w (drawn w + 4 + i)) \<longrightarrow>
               codeVerifier d = codeVerifier (?c w))"
    if "getChallenge P v = (Inr d, v')" for v d v'
  proof -
    from that run [of v] have d: "d = ?c v" by simp
    have 1: "codeVerifier d = codeVerifier (?c w) \<longrightarrow> codeChallenge d = codeChallenge (?c w)"
      by (simp add: d)
    have 2: "(\<forall>i<4. entropy v (drawn v + i) = entropy w (drawn w + i)) \<longrightarrow> state d = state (?c w)"
      using generateNonce_cong [of v w P] by (simp add: d)
    have 3: "(\<forall>i<4. entropy v (drawn v + 4 + i) = entropy w (drawn w + 4 + i)) \<longrightarrow>
               codeVerifier d = codeVerifier (?c w)"
      using generateNonce_cong [of "v\<lparr>drawn := drawn v + 4\<rparr>" "w\<lparr>drawn := drawn w + 4\<rparr>" P]
      by (simp add: d)
    from 1 2 3 show ?thesis by blast
  qed
  from run [of w] enc dec rel show ?thesis by blast
qed

text \<open>
  Two runs whose random tapes agree on the first four words and differ after them: the
  same \<open>state\<close>, different verifiers and challenges.
\<close>

theorem getChallenge_derivation_witness:
  "fst (getChallenge (toy_platform bad_request) (callback_world [])) =
     Inr \<lparr>state = ''302c'', codeVerifier = ''342c'', codeChallenge = ''MzQ''\<rparr>
   \<and> base64url_decode ''MzQ'' = Some (toy_digest ''342c'')
   \<and> map (entropy other_world) [0, 1, 2, 3] = map (entropy (callback_world [])) [0, 1, 2, 3]
   \<and> entropy other_world 4 \<noteq> entropy (callback_world []) 4
   \<and> fst (getChallenge (toy_platform bad_request) other_world) =
     Inr \<lparr>state = ''302c'', codeVerifier = ''3131'', codeChallenge = ''MzE''\<rparr>"
proof -
  let ?P = "toy_platform bad_request"
  obtain c where run: "getChallenge ?P (callback_world []) =
        (Inr c, (callback_world [])\<lparr>drawn := drawn (callback_world []) + 8\<rparr>)"
    and dec: "base64url_decode (codeChallenge c) = Some (sha256 ?P (codeVerifier c))"
    and rel: "\<forall>v d v'. getChallenge ?P v = (Inr d, v') \<longrightarrow>
           (codeVerifier d = codeVerifier c \<longrightarrow> codeChallenge d = codeChallenge c)
         \<and> ((\<forall>i<4. entropy v (drawn v + i) = entropy (callback_world []) (drawn (callback_world []) + i))
               \<longrightarrow> state d = state c)
         \<and> ((\<forall>i<4. entropy v (drawn v + 4 + i) =
                      entropy (callback_world []) (drawn (callback_world []) + 4 + i)) \<longrightarrow>
               codeVerifier d = codeVerifier c)"
    using getChallenge_derivation [of ?P "callback_world []"] by blast
  from run toy_getChallenge have c: "c = toy_challenge" by simp
  obtain d v' where other: "getChallenge ?P other_world = (Inr d, v')"
    using getChallenge_eq [of ?P other_world] by blast
  have same: "\<forall>i<4. entropy other_world (drawn other_world + i) =
      entropy (callback_world []) (drawn (callback_world []) + i)"
    by (simp add: other_world_def callback_world_def)
  from rel other same have st: "state d = state c" by blast
  from other other_getChallenge have d: "d = \<lparr>state = state c, codeVerifier = ''3131'', codeChallenge = ''MzE''\<rparr>"
    using st by (simp add: c toy_challenge_def)
  have 1: "fst (getChallenge ?P (callback_world [])) =
     Inr \<lparr>state = ''302c'', codeVerifier = ''342c'', codeChallenge = ''MzQ''\<rparr>"
    using run c by (simp add: toy_challenge_def)
  have 2: "base64url_decode ''MzQ'' = Some (toy_digest ''342c'')"
    using dec by (simp add: c toy_challenge_def toy_platform_def)
  have 3: "map (entropy other_world) [0, 1, 2, 3] = map (entropy (callback_world [])) [0, 1, 2, 3]"
    by (simp add: other_world_def callback_world_def)
  have 4: "entropy other_world 4 \<noteq> entropy (callback_world []) 4"
    by (simp add: other_world_def callback_world_def)
  have 5: "fst (getChallenge ?P other_world) =
     Inr \<lparr>state = ''302c'', codeVerifier = ''3131'', codeChallenge = ''MzE''\<rparr>"
    using other d by (simp add: c toy_challenge_def)
  from 1 2 3 4 5 show ?thesis by blast
qed

section \<open>redirectToLogin\<close>

lemma redirectToLogin_eq:
  assumes "getChallenge P w = (Inr c, w1)"
  shows "redirectToLogin P idpUrl clientId redirectUri path scope w =
     (if \<not> storage_accepts P (state c) (codeVerifier c) then (Inl QuotaExceededError, w1)
      else case new_URL P (case path of None \<Rightarrow> ''/login'' | Some p \<Rightarrow> p) idpUrl of
             Inl e \<Rightarrow>
               (Inl e, w1\<lparr>sessionStorage := (sessionStorage w1)(state c \<mapsto> codeVerifier c),
                          trace := trace w1 @ [StorageSet (state c) (codeVerifier c)]\<rparr>)
           | Inr u \<Rightarrow>
               (Inr (), w1\<lparr>sessionStorage := (sessionStorage w1)(state c \<mapsto> codeVerifier c),
                   trace := trace w1 @ [StorageSet (state c) (codeVerifier c),
                     Navigate (href (set_search (URLSearchParams_toString
                        (login_params (case scope of None \<Rightarrow> ''openid'' | Some s \<Rightarrow> s) c clientId redirectUri)) u))]\<rparr>))"
  using assms
  by (simp add: redirectToLogin_def setItem_def navigate_def Let_def split: sum.splits)

text \<open>
  C1. What a run of \<open>redirectToLogin\<close> adds to the trace is nothing (the store refused the
  write), or the write of \<open>codeVerifier\<close> under \<open>state\<close> alone (the URL could not be built), or
  that write followed by one navigation. So a navigation is always preceded by the write.
  Whenever the write is in the trace, the store maps the \<open>state\<close> of the challenge of this
  run to its \<open>codeVerifier\<close>.
\<close>

theorem redirectToLogin_persists_first:
  fixes P idpUrl clientId redirectUri path scope w
  defines "w' \<equiv> snd (redirectToLogin P idpUrl clientId redirectUri path scope w)"
  shows "\<exists>c w1 evs. getChallenge P w = (Inr c, w1) \<and> trace w' = trace w @ evs
     \<and> (evs = [] \<or> evs = [StorageSet (state c) (codeVerifier c)]
         \<or> (\<exists>target. evs = [StorageSet (state c) (codeVerifier c), Navigate target]))
     \<and> (evs \<noteq> [] \<longrightarrow> sessionStorage w' (state c) = Some (codeVerifier c))"
proof -
  obtain c where c: "getChallenge P w = (Inr c, w\<lparr>drawn := drawn w + 8\<rparr>)"
    using getChallenge_eq by blast
  let ?w1 = "w\<lparr>drawn := drawn w + 8\<rparr>"
  note eq = redirectToLogin_eq [OF c, of idpUrl clientId redirectUri path scope]
  show ?thesis
  proof (cases "storage_accepts P (state c) (codeVerifier c)")
    case False
    then have "trace w' = trace w @ []" by (simp add: w'_def eq)
    with c show ?thesis by blast
  next
    case True
    show ?thesis
    proof (cases "new_URL P (case path of None \<Rightarrow> ''/login'' | Some p \<Rightarrow> p) idpUrl")
      case (Inl e)
      with True have "trace w' = trace w @ [StorageSet (state c) (codeVerifier c)]"
        and "sessionStorage w' (state c) = Some (codeVerifier c)"
        by (simp_all add: w'_def eq)
      with c show ?thesis by blast
    next
      case (Inr u)
      with True have "\<exists>target. trace w' = trace w @ [StorageSet (state c) (codeVerifier c), Navigate target]"
        and "sessionStorage w' (state c) = Some (codeVerifier c)"
        by (simp_all add: w'_def eq)
      with c show ?thesis by blast
    qed
  qed
qed

text \<open>
  A run with an accepting store and a base that resolves: the write, then the navigation.
\<close>

theorem redirectToLogin_persists_first_witness:
  "storage_accepts (toy_platform bad_request) ''302c'' ''342c''
   \<and> (\<exists>target. trace (snd (redirectToLogin (toy_platform bad_request) ''https://idp'' ''c id''
         ''https://app/cb?x=1'' None None (callback_world []))) =
       [StorageSet ''302c'' ''342c'', Navigate target])
   \<and> sessionStorage (snd (redirectToLogin (toy_platform bad_request) ''https://idp'' ''c id''
         ''https://app/cb?x=1'' None None (callback_world []))) ''302c'' = Some ''342c''"
proof -
  let ?P = "toy_platform bad_request"
  let ?w' = "snd (redirectToLogin ?P ''https://idp'' ''c id'' ''https://app/cb?x=1'' None None (callback_world []))"
  obtain c w1 evs where run: "getChallenge ?P (callback_world []) = (Inr c, w1)"
    and tr: "trace ?w' = trace (callback_world []) @ evs"
    and shape: "evs = [] \<or> evs = [StorageSet (state c) (codeVerifier c)]
         \<or> (\<exists>target. evs = [StorageSet (state c) (codeVerifier c), Navigate target])"
    and store: "evs \<noteq> [] \<longrightarrow> sessionStorage ?w' (state c) = Some (codeVerifier c)"
    using redirectToLogin_persists_first [of ?P "callback_world []" "''https://idp''" "''c id''"
        "''https://app/cb?x=1''" None None] by blast
  from run toy_getChallenge have c: "c = toy_challenge" by simp
  have acc: "storage_accepts ?P ''302c'' ''342c''" by (simp add: toy_platform_def)
  have "length (trace ?w') = 2"
    using redirectToLogin_eq [OF run, of "''https://idp''" "''c id''" "''https://app/cb?x=1''" None None]
      run getChallenge_eq [of ?P "callback_world []"]
    by (auto simp: toy_platform_def toy_URL_def callback_world_def)
  with tr have "length evs = 2" by (simp add: callback_world_def)
  with shape have "\<exists>target. evs = [StorageSet (state c) (codeVerifier c), Navigate target]"
    by auto
  with tr store acc show ?thesis
    by (auto simp: c toy_challenge_def callback_world_def)
qed

text \<open>
  C7. When the store takes the write and \<open>path\<close> (\<^verbatim>\<open>/login\<close> when missing) resolves against
  \<open>idpUrl\<close> to a URL \<open>u\<close>, \<open>redirectToLogin\<close> navigates to \<open>u\<close> with its query replaced by
  the serialization of \<^verbatim>\<open>response_type=code\<close>, \<open>scope\<close> (\<^verbatim>\<open>openid\<close> when missing), \<open>state\<close>,
  \<open>client_id\<close>, \<open>code_challenge\<close>, \<^verbatim>\<open>code_challenge_method=S256\<close> and \<open>redirect_uri\<close>, with \<open>state\<close>
  and \<open>code_challenge\<close> from the challenge of this run. Parsing that query gives back
  exactly these seven pairs.
\<close>

theorem redirectToLogin_url:
  assumes "getChallenge P w = (Inr c, w1)"
    and "storage_accepts P (state c) (codeVerifier c)"
    and "new_URL P (case path of None \<Rightarrow> ''/login'' | Some p \<Rightarrow> p) idpUrl = Inr u"
  shows "\<exists>q w'. redirectToLogin P idpUrl clientId redirectUri path scope w = (Inr (), w')
     \<and> trace w' = trace w @
         [StorageSet (state c) (codeVerifier c),
          Navigate (url_base u @ ''?'' @ q @ (case url_fragment u of None \<Rightarrow> [] | Some f \<Rightarrow> ''#'' @ f))]
     \<and> q = URLSearchParams_toString
           [(''response_type'', ''code''),
            (''scope'', case scope of None \<Rightarrow> ''openid'' | Some s \<Rightarrow> s),
            (''state'', state c),
            (''client_id'', clientId),
            (''code_challenge'', codeChallenge c),
            (''code_challenge_method'', ''S256''),
            (''redirect_uri'', redirectUri)]
     \<and> URLSearchParams_parse (''?'' @ q) =
           [(''response_type'', ''code''),
            (''scope'', case scope of None \<Rightarrow> ''openid'' | Some s \<Rightarrow> s),
            (''state'', state c),
            (''client_id'', clientId),
            (''code_challenge'', codeChallenge c),
            (''code_challenge_method'', ''S256''),
            (''redirect_uri'', redirectUri)]"
proof -
  let ?ps = "login_params (case scope of None \<Rightarrow> ''openid'' | Some s \<Rightarrow> s) c clientId redirectUri"
  let ?q = "URLSearchParams_toString ?ps"
  have w1: "trace w1 = trace w"
    using assms(1) getChallenge_eq [of P w] by auto
  have first: "\<exists>rest. ?q = CHR ''r'' # rest"
    by (simp add: URLSearchParams_toString_def login_params_def form_encode_def form_encode_char_def
          is_form_safe_def)
  have "query_encode (url_special u) ?q = ?q"
    using toString_alphabet by (rule query_encode_plain)
  with first have "set_search ?q u = u\<lparr>url_query := Some ?q\<rparr>"
    by (auto simp: set_search_def)
  then have nav: "href (set_search ?q u) =
      url_base u @ ''?'' @ ?q @ (case url_fragment u of None \<Rightarrow> [] | Some f \<Rightarrow> ''#'' @ f)"
    by (simp add: href_def)
  have parse: "URLSearchParams_parse (''?'' @ ?q) = ?ps"
    by (simp add: URLSearchParams_parse_def form_parse_toString)
  show ?thesis
    using redirectToLogin_eq [OF assms(1), of idpUrl clientId redirectUri path scope] assms(2,3)
      nav parse w1
    by (simp add: login_params_def)
qed

text \<open>
  A run with a client id that has a space and a redirect URI that has reserved characters.
\<close>

theorem redirectToLogin_url_witness:
  "\<exists>w'. redirectToLogin (toy_platform bad_request) ''https://idp'' ''c id'' ''https://app/cb?x=1''
            None None (callback_world []) = (Inr (), w')
     \<and> trace w' =
         [StorageSet ''302c'' ''342c'',
          Navigate ''https://idp/login?response_type=code&scope=openid&state=302c&client_id=c+id&code_challenge=MzQ&code_challenge_method=S256&redirect_uri=https%3A%2F%2Fapp%2Fcb%3Fx%3D1'']
     \<and> URLSearchParams_parse
           ''?response_type=code&scope=openid&state=302c&client_id=c+id&code_challenge=MzQ&code_challenge_method=S256&redirect_uri=https%3A%2F%2Fapp%2Fcb%3Fx%3D1'' =
           [(''response_type'', ''code''), (''scope'', ''openid''), (''state'', ''302c''),
            (''client_id'', ''c id''), (''code_challenge'', ''MzQ''),
            (''code_challenge_method'', ''S256''), (''redirect_uri'', ''https://app/cb?x=1'')]"
proof -
  let ?P = "toy_platform bad_request"
  have run: "getChallenge ?P (callback_world []) = (Inr toy_challenge, snd (getChallenge ?P (callback_world [])))"
    using toy_getChallenge by (cases "getChallenge ?P (callback_world [])") simp
  have acc: "storage_accepts ?P (state toy_challenge) (codeVerifier toy_challenge)"
    by (simp add: toy_platform_def)
  have url: "new_URL ?P (case None of None \<Rightarrow> ''/login'' | Some p \<Rightarrow> p) ''https://idp'' =
      Inr \<lparr>url_base = ''https://idp/login'', url_special = True, url_query = None, url_fragment = None\<rparr>"
    by (simp add: toy_platform_def toy_URL_def)
  show ?thesis
    using redirectToLogin_url [OF run acc url, of "''c id''" "''https://app/cb?x=1''" None] toy_query
    by (simp add: toy_challenge_def callback_world_def)
qed

section \<open>redirectToLogout\<close>

text \<open>
  C9. \<open>redirectToLogout\<close> adds one event to the trace, the navigation to
  \<open>idpUrl\<close>, \<open>path\<close> (\<^verbatim>\<open>/logout\<close> when missing), \<^verbatim>\<open>?client_id=\<close>, \<open>clientId\<close>, \<^verbatim>\<open>&logout_uri=\<close>,
  \<open>logoutUri\<close> put together as they are, and changes nothing else: the store is neither
  read nor written.
\<close>

theorem redirectToLogout_navigates:
  "trace (redirectToLogout idpUrl path clientId logoutUri w) =
     trace w @ [Navigate (idpUrl @ (case path of None \<Rightarrow> ''/logout'' | Some p \<Rightarrow> p) @
                          ''?client_id='' @ clientId @ ''&logout_uri='' @ logoutUri)]
   \<and> sessionStorage (redirectToLogout idpUrl path clientId logoutUri w) = sessionStorage w"
  by (simp add: redirectToLogout_def navigate_def Let_def)

section \<open>validateAuth\<close>

lemma validateAuth_Inr: "validateAuth raw = Inr a \<Longrightarrow> a = raw"
  by (auto simp: validateAuth_def split: if_splits)

text \<open>
  C5, as amended. \<open>validateAuth\<close> fails with an \<open>Error\<close> exactly when the input is not an
  object, or \<^verbatim>\<open>access_token\<close>, \<^verbatim>\<open>id_token\<close> or \<^verbatim>\<open>refresh_token\<close> is not a string, or \<^verbatim>\<open>expires_in\<close>
  is not a number, or \<^verbatim>\<open>token_type\<close> is not exactly \<^verbatim>\<open>Bearer\<close>, which includes a missing
  \<^verbatim>\<open>token_type\<close>. Otherwise it returns its input unchanged.
\<close>

theorem validateAuth_rejects_iff:
  "(\<exists>m. validateAuth raw = Inl (Error m)) =
     (\<not> is_object raw
      \<or> typeof (property raw ''access_token'') \<noteq> T_string
      \<or> typeof (property raw ''id_token'') \<noteq> T_string
      \<or> typeof (property raw ''refresh_token'') \<noteq> T_string
      \<or> typeof (property raw ''expires_in'') \<noteq> T_number
      \<or> property raw ''token_type'' \<noteq> Some (JString ''Bearer''))
   \<and> (validateAuth raw = Inr raw \<or> (\<exists>m. validateAuth raw = Inl (Error m)))"
  by (cases raw) (auto simp: validateAuth_def)

text \<open>
  The documented shape is returned unchanged; \<^verbatim>\<open>expires_in\<close> given as the string \<^verbatim>\<open>60\<close> is
  rejected, not coerced; a missing \<^verbatim>\<open>token_type\<close> is rejected.
\<close>

theorem validateAuth_rejects_iff_witness:
  "validateAuth (tokens (JNumber 60)) = Inr (tokens (JNumber 60))
   \<and> (\<exists>m. validateAuth (tokens (JString ''60'')) = Inl (Error m))
   \<and> (\<exists>m. validateAuth tokens_without_type = Inl (Error m))"
proof -
  have 1: "validateAuth (tokens (JNumber 60)) = Inr (tokens (JNumber 60))"
    using validateAuth_rejects_iff [of "tokens (JNumber 60)"] by (auto simp: tokens_def)
  have 2: "\<exists>m. validateAuth (tokens (JString ''60'')) = Inl (Error m)"
    using validateAuth_rejects_iff [of "tokens (JString ''60'')"] by (auto simp: tokens_def)
  have 3: "\<exists>m. validateAuth tokens_without_type = Inl (Error m)"
    using validateAuth_rejects_iff [of tokens_without_type] by (auto simp: tokens_without_type_def)
  from 1 2 3 show ?thesis by blast
qed

text \<open>
  The rule as the specification words it accepts a response without \<^verbatim>\<open>token_type\<close>;
  \<open>validateAuth\<close> rejects it.
\<close>

theorem validateAuth_spec_counterexample:
  "\<not> spec_schema_error tokens_without_type
   \<and> validateAuth tokens_without_type =
       Inl (Error (''token_type must be '' @ [CHR 0x27] @ ''Bearer'' @ [CHR 0x27]))"
  by (simp add: spec_schema_error_def tokens_without_type_def validateAuth_def)

section \<open>exchangeCode\<close>

lemma token_request_body:
  "req_body (token_request code cv idpUrl clientId redirectUri) =
     ''grant_type=authorization_code&client_id='' @ clientId @ ''&code='' @ code @
     ''&code_verifier='' @ cv @ ''&redirect_uri='' @ redirectUri"
  by (simp add: token_request_def)

lemma exchangeCode_world:
  "snd (exchangeCode P code cv idpUrl clientId redirectUri w) =
     w\<lparr>trace := trace w @ [HttpRequest (token_request code cv idpUrl clientId redirectUri)]\<rparr>"
  by (simp add: exchangeCode_def Let_def split: sum.splits)

lemma exchangeCode_result:
  "fst (exchangeCode P code cv idpUrl clientId redirectUri w) =
     (case fetch P (token_request code cv idpUrl clientId redirectUri) of
        Inl e \<Rightarrow> Inl e
      | Inr res \<Rightarrow>
          (case res_json res of
             Inl e \<Rightarrow> Inl e
           | Inr rawData \<Rightarrow>
               if \<not> res_ok res
               then Inl (Error (''Error exchanging code: '' @ JSON_stringify P rawData))
               else validateAuth rawData))"
  by (simp add: exchangeCode_def Let_def split: sum.splits)

text \<open>
  C6. Whatever the endpoint answers, and whether \<open>exchangeCode\<close> returns or throws, it
  adds exactly one request to the trace: a POST to \<open>idpUrl\<close> followed by \<^verbatim>\<open>/oauth2/token\<close>,
  with the content type \<^verbatim>\<open>application/x-www-form-urlencoded\<close> and the body
  \<^verbatim>\<open>grant_type=authorization_code&client_id=..&code=..&code_verifier=..&redirect_uri=..\<close>, the
  values put in as they are.
\<close>

theorem exchangeCode_one_request:
  "trace (snd (exchangeCode P code cv idpUrl clientId redirectUri w)) =
     trace w @
       [HttpRequest
          \<lparr>req_url = idpUrl @ ''/oauth2/token'',
           req_method = ''POST'',
           req_headers = [(''content-type'', ''application/x-www-form-urlencoded'')],
           req_body = ''grant_type=authorization_code&client_id='' @ clientId @ ''&code='' @ code @
                      ''&code_verifier='' @ cv @ ''&redirect_uri='' @ redirectUri\<rparr>]"
  by (simp add: exchangeCode_world token_request_def)

section \<open>handleCallback\<close>

lemma handleCallback_present:
  assumes "URLSearchParams_get (URLSearchParams_parse (location_search w)) ''code'' = Some cd"
    and "URLSearchParams_get (URLSearchParams_parse (location_search w)) ''state'' = Some st"
    and "cd \<noteq> []" and "st \<noteq> []"
  shows "handleCallback P idpUrl clientId redirectUri w =
     (case sessionStorage w st of
        None \<Rightarrow> (Inl (Error ''Missing state''), removeItem st (snd (getItem st w)))
      | Some cv \<Rightarrow>
          if cv = [] then (Inl (Error ''Missing state''), removeItem st (snd (getItem st w)))
          else exchangeCode P cd cv idpUrl clientId redirectUri (removeItem st (snd (getItem st w))))"
  using assms by (simp add: handleCallback_def Let_def getItem_def split: option.splits)

lemma removeItem_getItem:
  "removeItem st (snd (getItem st w)) =
     w\<lparr>sessionStorage := (sessionStorage w)(st := None),
       trace := trace w @ [StorageGet st, StorageRemove st]\<rparr>"
  by (simp add: removeItem_def getItem_def)

lemma handleCallback_storage:
  assumes "URLSearchParams_get (URLSearchParams_parse (location_search w)) ''code'' = Some cd"
    and "URLSearchParams_get (URLSearchParams_parse (location_search w)) ''state'' = Some st"
    and "cd \<noteq> []" and "st \<noteq> []"
  shows "sessionStorage (snd (handleCallback P idpUrl clientId redirectUri w)) = (sessionStorage w)(st := None)"
    and "location_search (snd (handleCallback P idpUrl clientId redirectUri w)) = location_search w"
    and "take 2 (drop (length (trace w)) (trace (snd (handleCallback P idpUrl clientId redirectUri w)))) =
           [StorageGet st, StorageRemove st]"
  by (simp_all add: handleCallback_present [OF assms] removeItem_getItem exchangeCode_world
        split: option.splits)

text \<open>
  C10. When \<^verbatim>\<open>code\<close> or \<^verbatim>\<open>state\<close> is in the query with an empty value, or is not in the query
  at all, \<open>handleCallback\<close> throws the same error, \<^verbatim>\<open>Missing state or code\<close>, and leaves the
  browser state as it was: no read and no removal on the store.
\<close>

theorem handleCallback_empty_parameter:
  assumes "URLSearchParams_get (URLSearchParams_parse (location_search w)) ''code'' \<in> {None, Some []}
           \<or> URLSearchParams_get (URLSearchParams_parse (location_search w)) ''state'' \<in> {None, Some []}"
  shows "handleCallback P idpUrl clientId redirectUri w = (Inl (Error ''Missing state or code''), w)"
  using assms by (auto simp: handleCallback_def Let_def)

text \<open>
  The query \<^verbatim>\<open>?code=&state=abc\<close>, and the query \<^verbatim>\<open>?state=abc\<close>, with a verifier stored under
  \<^verbatim>\<open>abc\<close>.
\<close>

theorem handleCallback_empty_parameter_witness:
  "URLSearchParams_get (URLSearchParams_parse (location_search (callback_world ''?code=&state=abc''))) ''code'' = Some ''''
   \<and> handleCallback (toy_platform bad_request) ''https://idp'' ''cid'' ''https://app/cb''
         (callback_world ''?code=&state=abc'') =
       (Inl (Error ''Missing state or code''), callback_world ''?code=&state=abc'')
   \<and> handleCallback (toy_platform bad_request) ''https://idp'' ''cid'' ''https://app/cb''
         (callback_world ''?state=abc'') =
       (Inl (Error ''Missing state or code''), callback_world ''?state=abc'')
   \<and> sessionStorage (callback_world ''?code=&state=abc'') ''abc'' = Some ''v3r1f13r''"
proof -
  have c: "URLSearchParams_get (URLSearchParams_parse (location_search (callback_world ''?code=&state=abc''))) ''code'' = Some ''''"
    by (simp add: callback_world_def query_eval)
  have d: "URLSearchParams_get (URLSearchParams_parse (location_search (callback_world ''?state=abc''))) ''code'' = None"
    by (simp add: callback_world_def query_eval)
  have 1: "handleCallback (toy_platform bad_request) ''https://idp'' ''cid'' ''https://app/cb''
         (callback_world ''?code=&state=abc'') =
       (Inl (Error ''Missing state or code''), callback_world ''?code=&state=abc'')"
    by (rule handleCallback_empty_parameter) (simp add: c)
  have 2: "handleCallback (toy_platform bad_request) ''https://idp'' ''cid'' ''https://app/cb''
         (callback_world ''?state=abc'') =
       (Inl (Error ''Missing state or code''), callback_world ''?state=abc'')"
    by (rule handleCallback_empty_parameter) (simp add: d)
  have 3: "sessionStorage (callback_world ''?code=&state=abc'') ''abc'' = Some ''v3r1f13r''"
    by (simp add: callback_world_def)
  from c 1 2 3 show ?thesis by blast
qed

text \<open>
  C3, as amended. When \<^verbatim>\<open>code\<close> and \<^verbatim>\<open>state\<close> are both in the query and not empty, then
  after \<open>handleCallback\<close>, whatever was stored and whatever the exchange did, the store has
  no entry under \<open>state\<close>: a lookup finds nothing, and a second \<open>handleCallback\<close> on the same
  query throws \<^verbatim>\<open>Missing state\<close> without making a request.
\<close>

theorem handleCallback_removes_verifier:
  assumes "URLSearchParams_get (URLSearchParams_parse (location_search w)) ''code'' = Some cd"
    and "URLSearchParams_get (URLSearchParams_parse (location_search w)) ''state'' = Some st"
    and "cd \<noteq> []" and "st \<noteq> []"
    and "w' = snd (handleCallback P idpUrl clientId redirectUri w)"
  shows "sessionStorage w' st = None
       \<and> fst (getItem st w') = None
       \<and> handleCallback P' idpUrl' clientId' redirectUri' w' =
           (Inl (Error ''Missing state''),
            w'\<lparr>trace := trace w' @ [StorageGet st, StorageRemove st]\<rparr>)"
proof -
  have store: "sessionStorage w' = (sessionStorage w)(st := None)"
    and search: "location_search w' = location_search w"
    using handleCallback_storage [OF assms(1-4)] assms(5) by simp_all
  have none: "sessionStorage w' st = None" by (simp add: store)
  have "handleCallback P' idpUrl' clientId' redirectUri' w' =
          (Inl (Error ''Missing state''), removeItem st (snd (getItem st w')))"
    using handleCallback_present [of w' cd st P' idpUrl' clientId' redirectUri'] assms(1-4)
    by (simp add: search none)
  moreover have "removeItem st (snd (getItem st w')) =
      w'\<lparr>trace := trace w' @ [StorageGet st, StorageRemove st]\<rparr>"
  proof -
    have "(sessionStorage w')(st := None) = sessionStorage w'"
      using none by (simp add: fun_upd_idem)
    then show ?thesis by (simp add: removeItem_getItem)
  qed
  ultimately show ?thesis using none by (simp add: getItem_def)
qed

text \<open>
  A callback whose exchange fails with status 400: the verifier is gone afterwards.
\<close>

theorem handleCallback_removes_verifier_witness:
  "URLSearchParams_get (URLSearchParams_parse (location_search (callback_world ''?code=xyz&state=abc''))) ''state'' = Some ''abc''
   \<and> sessionStorage (callback_world ''?code=xyz&state=abc'') ''abc'' = Some ''v3r1f13r''
   \<and> sessionStorage (snd (handleCallback (toy_platform bad_request) ''https://idp'' ''cid'' ''https://app/cb''
         (callback_world ''?code=xyz&state=abc''))) ''abc'' = None
   \<and> fst (handleCallback (toy_platform bad_request) ''https://idp'' ''cid'' ''https://app/cb''
         (snd (handleCallback (toy_platform bad_request) ''https://idp'' ''cid'' ''https://app/cb''
            (callback_world ''?code=xyz&state=abc'')))) = Inl (Error ''Missing state'')"
proof -
  let ?w = "callback_world ''?code=xyz&state=abc''"
  have c: "URLSearchParams_get (URLSearchParams_parse (location_search ?w)) ''code'' = Some ''xyz''"
    by (simp add: callback_world_def URLSearchParams_parse_def form_parse_def parse_pair_def
          form_decode_def replace_all_def)
  have s: "URLSearchParams_get (URLSearchParams_parse (location_search ?w)) ''state'' = Some ''abc''"
    by (simp add: callback_world_def URLSearchParams_parse_def form_parse_def parse_pair_def
          form_decode_def replace_all_def)
  have v: "sessionStorage ?w ''abc'' = Some ''v3r1f13r''"
    by (simp add: callback_world_def)
  show ?thesis
    using handleCallback_removes_verifier [OF c s _ _ refl,
        of "toy_platform bad_request" "''https://idp''" "''cid''" "''https://app/cb''"
           "toy_platform bad_request" "''https://idp''" "''cid''" "''https://app/cb''"] s v
    by simp
qed

text \<open>
  With \<^verbatim>\<open>?code=&state=abc\<close> both parameters are in the query, and the entry under \<^verbatim>\<open>abc\<close>
  is still in the store afterwards.
\<close>

theorem handleCallback_removal_counterexample:
  "URLSearchParams_get (URLSearchParams_parse (location_search (callback_world ''?code=&state=abc''))) ''code'' = Some ''''
   \<and> URLSearchParams_get (URLSearchParams_parse (location_search (callback_world ''?code=&state=abc''))) ''state'' = Some ''abc''
   \<and> sessionStorage (snd (handleCallback (toy_platform bad_request) ''https://idp'' ''cid'' ''https://app/cb''
         (callback_world ''?code=&state=abc''))) ''abc'' = Some ''v3r1f13r''"
  by (simp add: handleCallback_def callback_world_def URLSearchParams_parse_def form_parse_def
        parse_pair_def form_decode_def replace_all_def)

text \<open>
  C4, as amended. \<open>handleCallback\<close> throws \<^verbatim>\<open>Missing state or code\<close> when \<^verbatim>\<open>code\<close> or \<^verbatim>\<open>state\<close>
  is missing or empty; \<^verbatim>\<open>Missing state\<close> when both are there and not empty and the store has
  no verifier, or an empty one, under \<open>state\<close>; and, when a verifier is found and the endpoint
  answers with a status outside 200 to 299 and a body that is JSON, an error whose message
  is \<^verbatim>\<open>Error exchanging code: \<close> followed by the serialized body. The three messages differ
  from each other. It returns a value only when both parameters are there and not empty, a
  verifier was found, the endpoint answered with a status from 200 to 299, and the body
  passed \<open>validateAuth\<close>.
\<close>

theorem handleCallback_failures:
  fixes P idpUrl clientId redirectUri w
  defines "code \<equiv> URLSearchParams_get (URLSearchParams_parse (location_search w)) ''code''"
    and "state' \<equiv> URLSearchParams_get (URLSearchParams_parse (location_search w)) ''state''"
    and "result \<equiv> fst (handleCallback P idpUrl clientId redirectUri w)"
  shows "(falsy code \<or> falsy state' \<longrightarrow> result = Inl (Error ''Missing state or code''))
    \<and> (\<forall>cd st. code = Some cd \<and> state' = Some st \<and> cd \<noteq> [] \<and> st \<noteq> [] \<and>
          falsy (sessionStorage w st) \<longrightarrow> result = Inl (Error ''Missing state''))
    \<and> (\<forall>cd st cv res body. code = Some cd \<and> state' = Some st \<and> cd \<noteq> [] \<and> st \<noteq> [] \<and>
          sessionStorage w st = Some cv \<and> cv \<noteq> [] \<and>
          fetch P (token_request cd cv idpUrl clientId redirectUri) = Inr res \<and>
          \<not> res_ok res \<and> res_json res = Inr body \<longrightarrow>
          result = Inl (Error (''Error exchanging code: '' @ JSON_stringify P body)))
    \<and> (\<forall>auth. result = Inr auth \<longrightarrow>
          (\<exists>cd st cv res. code = Some cd \<and> state' = Some st \<and> cd \<noteq> [] \<and> st \<noteq> [] \<and>
             sessionStorage w st = Some cv \<and> cv \<noteq> [] \<and>
             fetch P (token_request cd cv idpUrl clientId redirectUri) = Inr res \<and>
             res_ok res \<and> res_json res = Inr auth \<and> validateAuth auth = Inr auth))
    \<and> ''Missing state or code'' \<noteq> ''Missing state''
    \<and> (\<forall>body. ''Error exchanging code: '' @ body \<noteq> ''Missing state or code''
             \<and> ''Error exchanging code: '' @ body \<noteq> ''Missing state'')"
proof -
  have a: "falsy code \<or> falsy state' \<longrightarrow> result = Inl (Error ''Missing state or code'')"
    unfolding code_def state'_def result_def
    by (auto simp: handleCallback_def Let_def)
  have present: "result =
      (case sessionStorage w st of
         None \<Rightarrow> Inl (Error ''Missing state'')
       | Some cv \<Rightarrow> if cv = [] then Inl (Error ''Missing state'')
           else fst (exchangeCode P cd cv idpUrl clientId redirectUri (removeItem st (snd (getItem st w)))))"
    if "code = Some cd" "state' = Some st" "cd \<noteq> []" "st \<noteq> []" for cd st
    using handleCallback_present [of w cd st P idpUrl clientId redirectUri] that
    unfolding code_def state'_def result_def
    by (simp split: option.splits)
  have b: "\<forall>cd st. code = Some cd \<and> state' = Some st \<and> cd \<noteq> [] \<and> st \<noteq> [] \<and>
          falsy (sessionStorage w st) \<longrightarrow> result = Inl (Error ''Missing state'')"
    by (auto simp: present split: option.splits)
  have c: "\<forall>cd st cv res body. code = Some cd \<and> state' = Some st \<and> cd \<noteq> [] \<and> st \<noteq> [] \<and>
          sessionStorage w st = Some cv \<and> cv \<noteq> [] \<and>
          fetch P (token_request cd cv idpUrl clientId redirectUri) = Inr res \<and>
          \<not> res_ok res \<and> res_json res = Inr body \<longrightarrow>
          result = Inl (Error (''Error exchanging code: '' @ JSON_stringify P body))"
    by (auto simp: present exchangeCode_result)
  have d: "\<forall>auth. result = Inr auth \<longrightarrow>
          (\<exists>cd st cv res. code = Some cd \<and> state' = Some st \<and> cd \<noteq> [] \<and> st \<noteq> [] \<and>
             sessionStorage w st = Some cv \<and> cv \<noteq> [] \<and>
             fetch P (token_request cd cv idpUrl clientId redirectUri) = Inr res \<and>
             res_ok res \<and> res_json res = Inr auth \<and> validateAuth auth = Inr auth)"
  proof (intro allI impI)
    fix auth assume ok: "result = Inr auth"
    with a have nf: "\<not> falsy code" "\<not> falsy state'" by auto
    then obtain cd st where cs: "code = Some cd" "state' = Some st" "cd \<noteq> []" "st \<noteq> []"
      by (cases code; cases state') auto
    from ok present [OF cs] obtain cv where cv: "sessionStorage w st = Some cv" "cv \<noteq> []"
      and ex: "fst (exchangeCode P cd cv idpUrl clientId redirectUri (removeItem st (snd (getItem st w)))) = Inr auth"
      by (auto split: option.splits if_splits)
    from ex obtain res where res: "fetch P (token_request cd cv idpUrl clientId redirectUri) = Inr res"
      by (auto simp: exchangeCode_result split: sum.splits)
    from ex res obtain raw where raw: "res_json res = Inr raw"
      by (auto simp: exchangeCode_result split: sum.splits)
    from ex res raw have okv: "res_ok res" "validateAuth raw = Inr auth"
      by (auto simp: exchangeCode_result split: if_splits)
    then have "raw = auth" using validateAuth_Inr by blast
    with cs cv res raw okv show "\<exists>cd st cv res. code = Some cd \<and> state' = Some st \<and> cd \<noteq> [] \<and> st \<noteq> [] \<and>
             sessionStorage w st = Some cv \<and> cv \<noteq> [] \<and>
             fetch P (token_request cd cv idpUrl clientId redirectUri) = Inr res \<and>
             res_ok res \<and> res_json res = Inr auth \<and> validateAuth auth = Inr auth"
      by blast
  qed
  have e: "''Missing state or code'' \<noteq> ''Missing state''" by simp
  have f: "\<forall>body. ''Error exchanging code: '' @ body \<noteq> ''Missing state or code''
             \<and> ''Error exchanging code: '' @ body \<noteq> ''Missing state''" by simp
  from a b c d e f show ?thesis by blast
qed

text \<open>
  One callback for each of the three errors.
\<close>

theorem handleCallback_failures_witness:
  "fst (handleCallback (toy_platform bad_request) ''https://idp'' ''cid'' ''https://app/cb''
         (callback_world ''?state=abc'')) = Inl (Error ''Missing state or code'')
   \<and> fst (handleCallback (toy_platform bad_request) ''https://idp'' ''cid'' ''https://app/cb''
         (empty_store_world ''?code=xyz&state=abc'')) = Inl (Error ''Missing state'')
   \<and> sessionStorage (callback_world ''?code=xyz&state=abc'') ''abc'' = Some ''v3r1f13r''
   \<and> \<not> res_ok bad_request
   \<and> fst (handleCallback (toy_platform bad_request) ''https://idp'' ''cid'' ''https://app/cb''
         (callback_world ''?code=xyz&state=abc'')) =
       Inl (Error (''Error exchanging code: '' @ toy_stringify (JObject [(''error'', JString ''invalid_grant'')])))"
proof -
  let ?P = "toy_platform bad_request"
  note T = handleCallback_failures [where P = ?P and idpUrl = "''https://idp''"
      and clientId = "''cid''" and redirectUri = "''https://app/cb''"]
  have 1: "fst (handleCallback ?P ''https://idp'' ''cid'' ''https://app/cb''
         (callback_world ''?state=abc'')) = Inl (Error ''Missing state or code'')"
    using T [where w = "callback_world ''?state=abc''", THEN conjunct1]
    by (simp add: callback_world_def query_eval)
  have 2: "fst (handleCallback ?P ''https://idp'' ''cid'' ''https://app/cb''
         (empty_store_world ''?code=xyz&state=abc'')) = Inl (Error ''Missing state'')"
    using T [where w = "empty_store_world ''?code=xyz&state=abc''", THEN conjunct2, THEN conjunct1,
        rule_format, of "''xyz''" "''abc''"]
    by (simp add: empty_store_world_def query_eval)
  have 3: "fst (handleCallback ?P ''https://idp'' ''cid'' ''https://app/cb''
         (callback_world ''?code=xyz&state=abc'')) =
       Inl (Error (''Error exchanging code: '' @ toy_stringify (JObject [(''error'', JString ''invalid_grant'')])))"
    using T [where w = "callback_world ''?code=xyz&state=abc''", THEN conjunct2, THEN conjunct2,
        THEN conjunct1, rule_format, of "''xyz''" "''abc''" "''v3r1f13r''" bad_request
        "JObject [(''error'', JString ''invalid_grant'')]"]
    by (simp add: callback_world_def query_eval toy_platform_def bad_request_def res_ok_def)
  have 4: "sessionStorage (callback_world ''?code=xyz&state=abc'') ''abc'' = Some ''v3r1f13r''"
    by (simp add: callback_world_def)
  have 5: "\<not> res_ok bad_request" by (simp add: bad_request_def res_ok_def)
  from 1 2 3 4 5 show ?thesis by blast
qed

text \<open>
  With \<^verbatim>\<open>?code=&state=abc\<close> and an empty store, both parameters are in the query and no
  verifier is stored, and the error is \<^verbatim>\<open>Missing state or code\<close>. With a verifier found and an
  answer of status 502 whose body is not JSON, the error is the \<^verbatim>\<open>SyntaxError\<close> of
  \<^verbatim>\<open>res.json()\<close>.
\<close>

theorem handleCallback_failures_counterexample:
  "URLSearchParams_get (URLSearchParams_parse (location_search (empty_store_world ''?code=&state=abc''))) ''code'' = Some ''''
   \<and> URLSearchParams_get (URLSearchParams_parse (location_search (empty_store_world ''?code=&state=abc''))) ''state'' = Some ''abc''
   \<and> sessionStorage (empty_store_world ''?code=&state=abc'') ''abc'' = None
   \<and> fst (handleCallback (toy_platform bad_request) ''https://idp'' ''cid'' ''https://app/cb''
         (empty_store_world ''?code=&state=abc'')) = Inl (Error ''Missing state or code'')
   \<and> sessionStorage (callback_world ''?code=xyz&state=abc'') ''abc'' = Some ''v3r1f13r''
   \<and> \<not> res_ok bad_gateway
   \<and> fst (handleCallback (toy_platform bad_gateway) ''https://idp'' ''cid'' ''https://app/cb''
         (callback_world ''?code=xyz&state=abc'')) = Inl SyntaxError"
  by (simp add: handleCallback_def exchangeCode_def getItem_def removeItem_def
        empty_store_world_def callback_world_def toy_platform_def bad_gateway_def res_ok_def
        query_eval)

end
